theory Spec2Isabelle
  imports Complex_Main "HOL-Library.Multiset"
begin

section \<open>JavaScript values and strings\<close>

text \<open>
  The server is written in JavaScript. Strings are modelled as \<^typ>\<open>string\<close> (a list of
  code units); the model covers the ASCII range, where \<open>String.prototype.trim\<close> removes
  the six ASCII white-space characters and \<open>toLowerCase\<close>/\<open>toUpperCase\<close> act on the
  letters A-Z/a-z only. Numbers are IEEE doubles; those that reach the server over the JSON
  transport are finite. A finite double is a rational number, \<open>Math.floor\<close> is
  \<^const>\<open>floor\<close>, and the arithmetic of the score engine rounds every result to a
  double (see there).
\<close>

datatype jsval =
    JUndefined
  | JNull
  | JBool bool
  | JNum rat
  | JStr string
  | JArr "jsval list"
  | JObj "(string \<times> jsval) list"

text \<open>Property access \<open>o.k\<close>: \<open>undefined\<close> when the value has no such own property.\<close>

fun js_get :: "jsval \<Rightarrow> string \<Rightarrow> jsval" where
  "js_get (JObj kvs) k = (case map_of kvs k of None \<Rightarrow> JUndefined | Some v \<Rightarrow> v)"
| "js_get _ k = JUndefined"

definition is_space :: "char \<Rightarrow> bool" where
  "is_space c = (c = CHR 0x09 \<or> c = CHR 0x0A \<or> c = CHR 0x0B \<or> c = CHR 0x0C
                 \<or> c = CHR 0x0D \<or> c = CHR '' '')"

definition trim :: "string \<Rightarrow> string" where
  "trim s = rev (dropWhile is_space (rev (dropWhile is_space s)))"

definition lower_char :: "char \<Rightarrow> char" where
  "lower_char c = (let n = (of_char c :: nat) in if 65 \<le> n \<and> n \<le> 90 then char_of (n + 32) else c)"

definition upper_char :: "char \<Rightarrow> char" where
  "upper_char c = (let n = (of_char c :: nat) in if 97 \<le> n \<and> n \<le> 122 then char_of (n - 32) else c)"

definition toLowerCase :: "string \<Rightarrow> string" where
  "toLowerCase s = map lower_char s"

definition toUpperCase :: "string \<Rightarrow> string" where
  "toUpperCase s = map upper_char s"

text \<open>\<open>Array.prototype.join(sep)\<close> on an array of strings.\<close>

fun join :: "string \<Rightarrow> string list \<Rightarrow> string" where
  "join sep [] = []"
| "join sep [x] = x"
| "join sep (x # y # ys) = x @ sep @ join sep (y # ys)"

text \<open>\<open>String.prototype.split('')\<close>: one one-character string per code unit.\<close>

definition split_chars :: "string \<Rightarrow> string list" where
  "split_chars s = map (\<lambda>c. [c]) s"

text \<open>\<open>arr[i]\<close>: \<open>undefined\<close> (here \<open>None\<close>) when the index is out of range.\<close>

definition nth_opt :: "'a list \<Rightarrow> nat \<Rightarrow> 'a option" where
  "nth_opt xs i = (if i < length xs then Some (xs ! i) else None)"

text \<open>\<open>arr.indexOf(x)\<close>: the first position of \<open>x\<close>, \<open>None\<close> for the source's \<open>-1\<close>.\<close>

fun indexOf :: "'a list \<Rightarrow> 'a \<Rightarrow> nat option" where
  "indexOf [] x = None"
| "indexOf (y # ys) x = (if y = x then Some 0 else map_option Suc (indexOf ys x))"

text \<open>\<open>arr.splice(i, 1)\<close>: the array without its element at position \<open>i\<close>.\<close>

definition splice1 :: "nat \<Rightarrow> 'a list \<Rightarrow> 'a list" where
  "splice1 i xs = take i xs @ drop (Suc i) xs"

section \<open>Data model\<close>

type_synonym player_id = string

datatype room_status = Waiting | InGame | Finished

datatype game_phase = Idle | WordSelect | Drawing | RoundEnd | GameEnd

record room_settings =
  maxPlayers :: int
  drawTime :: int
  rounds :: int
  hints :: bool
  customWords :: "string list"

text \<open>
  The game object of \<open>gameEngine.js\<close>. \<open>drawerId\<close> is \<open>None\<close> when the source stores
  \<open>undefined\<close> (a read of \<open>room.players\<close> out of range); \<open>roundStartTime\<close>,
  \<open>selectedWord\<close> and \<open>maskedWord\<close> are \<open>None\<close> while the property is absent or null.
\<close>

record game_state =
  phase :: game_phase
  currentRound :: int
  totalRounds :: int
  drawerIndex :: nat
  drawerId :: "player_id option"
  guessedPlayers :: "player_id list"
  roundStartTime :: "int option"
  selectedWord :: "string option"
  maskedWord :: "string option"

record room =
  room_id :: string
  ownerId :: player_id
  players :: "player_id list"
  settings :: room_settings
  status :: room_status
  game :: "game_state option"

text \<open>
  The player object of \<open>players.js\<close>. \<open>createPlayer\<close> sets \<open>id\<close>, \<open>socketId\<close>, \<open>name\<close> and
  \<open>roomId\<close>; the \<open>score\<close> property exists only once the score engine has assigned it, so
  it is optional here (\<open>None\<close> is \<open>undefined\<close>). The fields carry the prefix \<open>p_\<close>.
\<close>

record player =
  p_id :: player_id
  p_socketId :: string
  p_name :: string
  p_roomId :: "string option"
  p_score :: "int option"

text \<open>
  The error strings of the source, one constructor each:
  \<open>RoomNotFound\<close> 'Room not found', \<open>NotAcceptingPlayers\<close> 'Room is not accepting players',
  \<open>AlreadyInThisRoom\<close> 'Already in this room', \<open>RoomFull\<close> 'Room is full',
  \<open>PlayerNotInRoom\<close> 'Player not in room', \<open>IdGenerationFailed\<close> 'Failed to generate room ID',
  \<open>OnlyOwnerSettings\<close> 'Only room owner can update settings',
  \<open>SettingsLocked\<close> 'Settings locked: game has started',
  \<open>MaxPlayersBelowCount n\<close> 'Cannot set max players below current player count (n)',
  \<open>OnlyOwnerStart\<close> 'Only room owner can start the game',
  \<open>GameInProgress\<close> 'Game already in progress or finished',
  \<open>NeedTwoPlayers\<close> 'Need at least 2 players to start',
  \<open>NoActiveGame\<close> 'No active game in this room', \<open>GameNotActive\<close> 'Game is not active',
  \<open>InvalidPhase p\<close> 'Invalid phase: p', \<open>OnlyDrawerSelects\<close> 'Only drawer can select word',
  \<open>NotWordSelectPhase\<close> 'Not in word selection phase',
  \<open>InvalidWordSelection\<close> 'Invalid word selection', \<open>NoWordsAvailable\<close> 'No words available',
  \<open>WrongPhaseForGuess\<close> 'Guessing is only allowed during drawing phase',
  \<open>DrawerCannotGuess\<close> 'Drawer cannot guess',
  \<open>AlreadyGuessed\<close> 'You have already guessed correctly',
  \<open>GuessMustBeString\<close> 'Guess must be a string', \<open>GuessEmpty\<close> 'Guess cannot be empty',
  \<open>GuessTooLong\<close> 'Guess cannot exceed 50 characters',
  \<open>NoWordSelected\<close> 'No word selected for this round', \<open>PlayerNotFound\<close> 'Player not found',
  \<open>NotInARoom\<close> 'Not in a room', \<open>OnlyOwnerPlayAgain\<close> 'Only room owner can start a new game',
  \<open>GameNotFinished\<close> 'Game is not finished'.
  \<open>TypeError m\<close> is the exception JavaScript raises when a value that is not a function
  is called.
\<close>

datatype error =
    RoomNotFound | NotAcceptingPlayers | AlreadyInThisRoom | RoomFull | PlayerNotInRoom
  | IdGenerationFailed | OnlyOwnerSettings | SettingsLocked | MaxPlayersBelowCount nat
  | OnlyOwnerStart | GameInProgress | NeedTwoPlayers | NoActiveGame | GameNotActive
  | InvalidPhase string | OnlyDrawerSelects | NotWordSelectPhase | InvalidWordSelection
  | NoWordsAvailable | WrongPhaseForGuess | DrawerCannotGuess | AlreadyGuessed
  | GuessMustBeString | GuessEmpty | GuessTooLong | NoWordSelected | PlayerNotFound
  | NotInARoom | OnlyOwnerPlayAgain | GameNotFinished
  | TypeError string

section \<open>Room registry\<close>

text \<open>The \<open>rooms\<close> map of the room module: room id to room object.\<close>

type_synonym rooms = "string \<rightharpoonup> room"

definition ROOM_ID_LENGTH :: nat where
  "ROOM_ID_LENGTH = 6"

definition ROOM_ID_CHARS :: string where
  "ROOM_ID_CHARS = ''ABCDEFGHIJKLMNOPQRSTUVWXYZ0123456789''"

definition DEFAULT_SETTINGS :: room_settings where
  "DEFAULT_SETTINGS = \<lparr>maxPlayers = 8, drawTime = 80, rounds = 3, hints = True, customWords = []\<rparr>"

text \<open>
  \<open>generateRoomId\<close>. The random source is a parameter: \<open>rnd k\<close> is the \<open>k\<close>-th value of
  \<open>Math.floor(Math.random() * ROOM_ID_CHARS.length)\<close> (taken modulo the alphabet size).
  The \<open>do ... while\<close> loop gives up on its 100th attempt; the last argument of the loop
  counts the attempts left.
\<close>

definition random_room_id :: "(nat \<Rightarrow> nat) \<Rightarrow> nat \<Rightarrow> string" where
  "random_room_id rnd attempt =
     map (\<lambda>i. ROOM_ID_CHARS ! (rnd (attempt * ROOM_ID_LENGTH + i) mod length ROOM_ID_CHARS))
       [0..<ROOM_ID_LENGTH]"

fun generateRoomId_loop :: "rooms \<Rightarrow> (nat \<Rightarrow> nat) \<Rightarrow> nat \<Rightarrow> nat \<Rightarrow> error + string" where
  "generateRoomId_loop rs rnd attempts 0 = Inl IdGenerationFailed"
| "generateRoomId_loop rs rnd attempts (Suc left) =
     (let roomId = random_room_id rnd attempts; attempts' = attempts + 1
      in if attempts' \<ge> 100 then Inl IdGenerationFailed
         else if rs roomId \<noteq> None then generateRoomId_loop rs rnd attempts' left
         else Inr roomId)"

definition generateRoomId :: "rooms \<Rightarrow> (nat \<Rightarrow> nat) \<Rightarrow> error + string" where
  "generateRoomId rs rnd = generateRoomId_loop rs rnd 0 100"

text \<open>\<open>normalizeRoomId\<close>: trimmed and upper-cased for a string, the empty string otherwise.\<close>

fun normalizeRoomId :: "jsval \<Rightarrow> string" where
  "normalizeRoomId (JStr s) = toUpperCase (trim s)"
| "normalizeRoomId _ = []"

text \<open>
  \<open>validateSettings\<close>. \<open>js_object_like v\<close> is the source's
  \<open>settings && typeof settings === 'object'\<close>; \<open>clamp_floor lo hi x\<close> is
  \<open>Math.max(lo, Math.min(hi, Math.floor(x)))\<close>.
\<close>

fun js_object_like :: "jsval \<Rightarrow> bool" where
  "js_object_like (JObj kvs) = True"
| "js_object_like (JArr vs) = True"
| "js_object_like _ = False"

definition clamp_floor :: "int \<Rightarrow> int \<Rightarrow> rat \<Rightarrow> int" where
  "clamp_floor lo hi x = max lo (min hi \<lfloor>x\<rfloor>)"

fun is_string :: "jsval \<Rightarrow> bool" where
  "is_string (JStr s) = True"
| "is_string _ = False"

fun str_of :: "jsval \<Rightarrow> string" where
  "str_of (JStr s) = s"
| "str_of _ = []"

definition validateCustomWords :: "jsval list \<Rightarrow> string list" where
  "validateCustomWords ws =
     take 50
       (filter (\<lambda>word. length word \<le> 50)
         (map (\<lambda>word. toLowerCase (trim (str_of word)))
           (filter (\<lambda>word. is_string word \<and> length (trim (str_of word)) > 0) ws)))"

definition validateSettings :: "jsval \<Rightarrow> room_settings" where
  "validateSettings s =
     (if \<not> js_object_like s then DEFAULT_SETTINGS
      else \<lparr>maxPlayers = (case js_get s ''maxPlayers'' of
                            JNum x \<Rightarrow> clamp_floor 2 12 x
                          | _ \<Rightarrow> maxPlayers DEFAULT_SETTINGS),
            drawTime = (case js_get s ''drawTime'' of
                          JNum x \<Rightarrow> clamp_floor 30 120 x
                        | _ \<Rightarrow> drawTime DEFAULT_SETTINGS),
            rounds = (case js_get s ''rounds'' of
                        JNum x \<Rightarrow> clamp_floor 1 10 x
                      | _ \<Rightarrow> rounds DEFAULT_SETTINGS),
            hints = (case js_get s ''hints'' of
                       JBool b \<Rightarrow> b
                     | _ \<Rightarrow> hints DEFAULT_SETTINGS),
            customWords = (case js_get s ''customWords'' of
                             JArr ws \<Rightarrow> validateCustomWords ws
                           | _ \<Rightarrow> customWords DEFAULT_SETTINGS)\<rparr>)"

text \<open>
  \<open>createRoom\<close>, \<open>joinRoom\<close>, \<open>leaveRoom\<close> and \<open>updateRoomSettings\<close>. Each takes the
  \<open>rooms\<close> map and returns the error of the source's \<open>{success: false, error}\<close> or the
  result together with the map as the call leaves it. \<open>leaveRoom\<close> returns \<open>None\<close> for
  the room when it deleted it.
\<close>

definition createRoom :: "rooms \<Rightarrow> (nat \<Rightarrow> nat) \<Rightarrow> player_id \<Rightarrow> jsval \<Rightarrow> error + room \<times> rooms" where
  "createRoom rs rnd playerId raw =
     (let validatedSettings = validateSettings raw
      in case generateRoomId rs rnd of
           Inl e \<Rightarrow> Inl IdGenerationFailed
         | Inr roomId \<Rightarrow>
             (let r = \<lparr>room_id = roomId, ownerId = playerId, players = [playerId],
                       settings = validatedSettings, status = Waiting, game = None\<rparr>
              in Inr (r, rs(roomId \<mapsto> r))))"

definition joinRoom :: "rooms \<Rightarrow> player_id \<Rightarrow> jsval \<Rightarrow> error + room \<times> rooms" where
  "joinRoom rs playerId roomId =
     (let normalizedRoomId = normalizeRoomId roomId
      in case rs normalizedRoomId of
           None \<Rightarrow> Inl RoomNotFound
         | Some r \<Rightarrow>
             if status r \<noteq> Waiting then Inl NotAcceptingPlayers
             else if playerId \<in> set (players r) then Inl AlreadyInThisRoom
             else if int (length (players r)) \<ge> maxPlayers (settings r) then Inl RoomFull
             else (let r' = r\<lparr>players := players r @ [playerId]\<rparr>
                   in Inr (r', rs(normalizedRoomId \<mapsto> r'))))"

definition leaveRoom :: "rooms \<Rightarrow> player_id \<Rightarrow> jsval \<Rightarrow> error + room option \<times> rooms" where
  "leaveRoom rs playerId roomId =
     (let normalizedRoomId = normalizeRoomId roomId
      in case rs normalizedRoomId of
           None \<Rightarrow> Inl RoomNotFound
         | Some r \<Rightarrow>
             (case indexOf (players r) playerId of
                None \<Rightarrow> Inl PlayerNotInRoom
              | Some playerIndex \<Rightarrow>
                  (let r1 = r\<lparr>players := splice1 playerIndex (players r)\<rparr>
                   in if length (players r1) = 0 then Inr (None, rs(normalizedRoomId := None))
                      else (let r2 = (if ownerId r1 = playerId
                                      then r1\<lparr>ownerId := hd (players r1)\<rparr> else r1)
                            in Inr (Some r2, rs(normalizedRoomId \<mapsto> r2))))))"

definition updateRoomSettings ::
  "rooms \<Rightarrow> player_id \<Rightarrow> jsval \<Rightarrow> jsval \<Rightarrow> error + room_settings \<times> rooms" where
  "updateRoomSettings rs playerId roomId newSettings =
     (let normalizedRoomId = normalizeRoomId roomId
      in case rs normalizedRoomId of
           None \<Rightarrow> Inl RoomNotFound
         | Some r \<Rightarrow>
             if ownerId r \<noteq> playerId then Inl OnlyOwnerSettings
             else if status r \<noteq> Waiting then Inl SettingsLocked
             else (let validatedSettings = validateSettings newSettings
                   in if maxPlayers validatedSettings < int (length (players r))
                      then Inl (MaxPlayersBelowCount (length (players r)))
                      else Inr (validatedSettings,
                                rs(normalizedRoomId \<mapsto> r\<lparr>settings := validatedSettings\<rparr>))))"

subsection \<open>Validated custom words\<close>

lemma is_space_code: "is_space c \<longleftrightarrow> (of_char c :: nat) \<in> {9, 10, 11, 12, 13, 32}"
proof -
  have h: "\<And>d. (c = d) = ((of_char c :: nat) = of_char d)" by auto
  show ?thesis unfolding is_space_def
    by (subst h [of "CHR 0x09"], subst h [of "CHR 0x0A"], subst h [of "CHR 0x0B"],
        subst h [of "CHR 0x0C"], subst h [of "CHR 0x0D"], subst h [of "CHR '' ''"]) simp
qed

lemma is_space_lower_char: "is_space (lower_char c) = is_space c"
  by (auto simp: is_space_code lower_char_def Let_def)

lemma lower_char_idem: "lower_char (lower_char c) = lower_char c"
  by (auto simp: lower_char_def Let_def)

text \<open>A string with no white space at either end.\<close>

definition trimmed :: "string \<Rightarrow> bool" where
  "trimmed t = (t = [] \<or> (\<not> is_space (hd t) \<and> \<not> is_space (last t)))"

lemma trim_of_trimmed: "trimmed t \<Longrightarrow> trim t = t"
proof (cases "t = []")
  case True
  then show ?thesis by (simp add: trim_def)
next
  case False
  assume "trimmed t"
  with False have h: "\<not> is_space (hd t)" and l: "\<not> is_space (last t)"
    by (auto simp: trimmed_def)
  from False h have 1: "dropWhile is_space t = t" by (cases t) auto
  from False l have 2: "dropWhile is_space (rev t) = rev t"
    by (cases "rev t") (auto simp: last_rev hd_rev[symmetric])
  show ?thesis by (simp add: trim_def 1 2)
qed

lemma trimmed_trim: "trimmed (trim s)"
proof -
  define u where "u = dropWhile is_space s"
  define v where "v = dropWhile is_space (rev u)"
  have tv: "trim s = rev v" by (simp add: trim_def u_def v_def)
  show ?thesis
  proof (cases "v = []")
    case True
    then show ?thesis by (simp add: tv trimmed_def)
  next
    case False
    then have hv: "\<not> is_space (hd v)" unfolding v_def by (simp add: hd_dropWhile)
    from False have une: "u \<noteq> []" unfolding v_def by auto
    then have hu: "\<not> is_space (hd u)" unfolding u_def by (simp add: hd_dropWhile)
    have "last v = last (rev u)" unfolding v_def using False
      by (metis last_appendR takeWhile_dropWhile_id v_def)
    then have "last v = hd u" using une by (simp add: last_rev)
    with hu hv False show ?thesis
      by (simp add: tv trimmed_def hd_rev last_rev)
  qed
qed

lemma trimmed_toLowerCase: "trimmed t \<Longrightarrow> trimmed (toLowerCase t)"
  by (auto simp: trimmed_def toLowerCase_def hd_map last_map is_space_lower_char)

lemma toLowerCase_idem: "toLowerCase (toLowerCase t) = toLowerCase t"
  by (simp add: toLowerCase_def lower_char_idem)

lemma validateCustomWords_elem:
  assumes "w \<in> set (validateCustomWords ws)"
  shows "trim w = w \<and> toLowerCase w = w \<and> w \<noteq> [] \<and> length w \<le> 50"
proof -
  from assms have "w \<in> set (filter (\<lambda>word. length word \<le> 50)
         (map (\<lambda>word. toLowerCase (trim (str_of word)))
           (filter (\<lambda>word. is_string word \<and> length (trim (str_of word)) > 0) ws)))"
    unfolding validateCustomWords_def by (rule in_set_takeD)
  then obtain v where w: "w = toLowerCase (trim (str_of v))" and ne: "trim (str_of v) \<noteq> []"
    and len: "length w \<le> 50" by auto
  from w have "trimmed w" by (simp add: trimmed_toLowerCase trimmed_trim)
  then have "trim w = w" by (rule trim_of_trimmed)
  moreover have "toLowerCase w = w" by (simp add: w toLowerCase_idem)
  moreover have "w \<noteq> []" using ne by (simp add: w toLowerCase_def)
  ultimately show ?thesis using len by simp
qed

lemma validateCustomWords_length: "length (validateCustomWords ws) \<le> 50"
  by (simp add: validateCustomWords_def)

text \<open>
  C9 (as amended). For every raw settings input, each entry of the validated
  \<open>customWords\<close> list is trimmed, lower-case, non-empty and at most 50 characters long,
  and the list has at most 50 entries. (\<open>validateSettings\<close> does not remove repeated
  entries.)
\<close>

theorem validateSettings_customWords:
  "(\<forall>w \<in> set (customWords (validateSettings raw)).
       trim w = w \<and> toLowerCase w = w \<and> w \<noteq> [] \<and> length w \<le> 50)
   \<and> length (customWords (validateSettings raw)) \<le> 50"
proof (cases "js_object_like raw")
  case False
  then show ?thesis by (simp add: validateSettings_def DEFAULT_SETTINGS_def)
next
  case True
  show ?thesis
  proof (cases "js_get raw ''customWords''")
    case (JArr ws)
    with True have "customWords (validateSettings raw) = validateCustomWords ws"
      by (simp add: validateSettings_def)
    then show ?thesis
      using validateCustomWords_elem[of _ ws] validateCustomWords_length[of ws] by auto
  qed (use True in \<open>simp_all add: validateSettings_def DEFAULT_SETTINGS_def\<close>)
qed

theorem validateSettings_customWords_witness:
  "''cat'' \<in> set (customWords (validateSettings
       (JObj [(''customWords'', JArr [JStr '' Cat '', JNum 3, JStr ''  ''])])))
   \<and> trim ''cat'' = ''cat'' \<and> toLowerCase ''cat'' = ''cat''
   \<and> length (customWords (validateSettings
       (JObj [(''customWords'', JArr [JStr '' Cat '', JNum 3, JStr ''  ''])]))) \<le> 50"
proof -
  let ?raw = "JObj [(''customWords'', JArr [JStr '' Cat '', JNum 3, JStr ''  ''])]"
  have m: "''cat'' \<in> set (customWords (validateSettings ?raw))"
    by code_simp
  from validateSettings_customWords[of ?raw] m show ?thesis by blast
qed

text \<open>
  C9 (as stated) fails on the absence of duplicates: a word given twice is kept twice.
\<close>

theorem validateSettings_duplicates_counterexample:
  "\<not> distinct (customWords (validateSettings
       (JObj [(''customWords'', JArr [JStr ''cat'', JStr ''cat''])])))"
  by code_simp

section \<open>Word engine: masking\<close>

text \<open>
  \<open>maskWord(word)\<close> of \<open>wordEngine.js\<close>: the empty string for a falsy argument, otherwise
  \<open>word.split('').map(char => char === ' ' ? ' ' : '_').join(' ')\<close>.
\<close>

definition maskWord :: "string \<Rightarrow> string" where
  "maskWord word =
     (if word = [] then []
      else join '' '' (map (\<lambda>ch. if ch = '' '' then '' '' else ''_'') (split_chars word)))"

text \<open>The character that stands for one character of the word in the mask.\<close>

definition mask_char :: "char \<Rightarrow> char" where
  "mask_char c = (if c = CHR '' '' then CHR '' '' else CHR ''_'')"

lemma join_singletons_length:
  "cs \<noteq> [] \<Longrightarrow> length (join '' '' (map (\<lambda>c. [f c]) cs)) = 2 * length cs - 1"
proof (induction cs rule: induct_list012)
  case 1
  then show ?case by simp
next
  case (2 x)
  then show ?case by simp
next
  case (3 x y zs)
  then show ?case by simp
qed

lemma join_singletons_even:
  "i < length cs \<Longrightarrow> join '' '' (map (\<lambda>c. [f c]) cs) ! (2 * i) = f (cs ! i)"
proof (induction cs arbitrary: i rule: induct_list012)
  case 1
  then show ?case by simp
next
  case (2 x)
  then show ?case by simp
next
  case (3 x y zs)
  show ?case
  proof (cases i)
    case 0
    then show ?thesis by simp
  next
    case (Suc j)
    with 3 have "j < length (y # zs)" by simp
    from 3(2)[OF this] Suc show ?thesis by simp
  qed
qed

lemma join_singletons_odd:
  "Suc i < length cs \<Longrightarrow> join '' '' (map (\<lambda>c. [f c]) cs) ! (2 * i + 1) = CHR '' ''"
proof (induction cs arbitrary: i rule: induct_list012)
  case 1
  then show ?case by simp
next
  case (2 x)
  then show ?case by simp
next
  case (3 x y zs)
  show ?case
  proof (cases i)
    case 0
    then show ?thesis by simp
  next
    case (Suc j)
    with 3 have "Suc j < length (y # zs)" by simp
    from 3(2)[OF this] Suc show ?thesis by simp
  qed
qed

lemma maskWord_as_join:
  "maskWord w = join '' '' (map (\<lambda>c. [mask_char c]) w)"
proof -
  have "map (\<lambda>ch. if ch = '' '' then '' '' else ''_'') (split_chars w) = map (\<lambda>c. [mask_char c]) w"
    by (induction w) (simp_all add: split_chars_def mask_char_def)
  then show ?thesis by (simp add: maskWord_def)
qed

lemma join_singletons_count:
  "a \<noteq> CHR '' '' \<Longrightarrow>
   count_list (join '' '' (map (\<lambda>c. [f c]) cs)) a = count_list (map f cs) a"
  by (induction cs rule: induct_list012) simp_all

text \<open>
  C7 (as amended). For every non-empty word \<open>w\<close> the mask has \<open>2 * length w - 1\<close>
  characters: position \<open>2 * i\<close> holds an underscore when the \<open>i\<close>-th character of \<open>w\<close> is
  not a space and a space when it is, every odd position holds the single joining space,
  and the mask has exactly one underscore per non-space character of \<open>w\<close>. A space of the
  word therefore appears between two joining spaces: the mask of \<open>ice cream\<close> has three
  spaces at the word break.
\<close>

theorem maskWord_shape:
  "w \<noteq> [] \<Longrightarrow>
     length (maskWord w) = 2 * length w - 1
   \<and> (\<forall>i < length w. maskWord w ! (2 * i) = (if w ! i = CHR '' '' then CHR '' '' else CHR ''_''))
   \<and> (\<forall>i. Suc i < length w \<longrightarrow> maskWord w ! (2 * i + 1) = CHR '' '')
   \<and> count_list (maskWord w) (CHR ''_'') = length (filter (\<lambda>c. c \<noteq> CHR '' '') w)
   \<and> maskWord ''ice cream'' = ''_ _ _   _ _ _ _ _''"
proof (intro conjI allI impI)
  assume w: "w \<noteq> []"
  show "length (maskWord w) = 2 * length w - 1"
    using w by (simp add: maskWord_as_join join_singletons_length)
  show "maskWord ''ice cream'' = ''_ _ _   _ _ _ _ _''"
    by (simp add: maskWord_def split_chars_def)
  have "count_list (maskWord w) (CHR ''_'') = count_list (map mask_char w) (CHR ''_'')"
    using w by (simp add: maskWord_as_join join_singletons_count)
  also have "\<dots> = length (filter (\<lambda>c. c \<noteq> CHR '' '') w)"
    by (induction w) (simp_all add: mask_char_def)
  finally show "count_list (maskWord w) (CHR ''_'') = length (filter (\<lambda>c. c \<noteq> CHR '' '') w)" .
next
  fix i
  assume w: "w \<noteq> []" and i: "i < length w"
  show "maskWord w ! (2 * i) = (if w ! i = CHR '' '' then CHR '' '' else CHR ''_'')"
    using w i by (simp add: maskWord_as_join join_singletons_even mask_char_def)
next
  fix i
  assume w: "w \<noteq> []" and i: "Suc i < length w"
  show "maskWord w ! (2 * i + 1) = CHR '' ''"
    using w join_singletons_odd[OF i, of mask_char] by (simp add: maskWord_as_join)
qed

theorem maskWord_shape_witness:
  "length (maskWord ''a b'') = 5 \<and> maskWord ''a b'' ! 2 = CHR '' ''
   \<and> count_list (maskWord ''a b'') (CHR ''_'') = 2"
proof -
  have ne: "''a b'' \<noteq> []" by simp
  from maskWord_shape[OF ne] have
    l: "length (maskWord ''a b'') = 2 * length ''a b'' - 1"
    and e: "\<forall>i < length ''a b''. maskWord ''a b'' ! (2 * i)
              = (if ''a b'' ! i = CHR '' '' then CHR '' '' else CHR ''_'')"
    and c: "count_list (maskWord ''a b'') (CHR ''_'') = length (filter (\<lambda>c. c \<noteq> CHR '' '') ''a b'')"
    by blast+
  have "(1::nat) < length ''a b''" by simp
  with e have "maskWord ''a b'' ! (2 * 1) = (if ''a b'' ! 1 = CHR '' '' then CHR '' '' else CHR ''_'')"
    by blast
  with l c show ?thesis by simp
qed

text \<open>
  C7 (as stated) fails on its own example: the claimed mask of \<open>ice cream\<close>, with two
  spaces at the word break, is not what \<open>maskWord\<close> returns.
\<close>

theorem maskWord_ice_cream_counterexample:
  "maskWord ''ice cream'' \<noteq> ''_ _ _  _ _ _ _ _''"
  by (simp add: maskWord_def split_chars_def)

section \<open>Game engine\<close>

text \<open>
  The functions of the game engine take the room object and mutate it; the model returns
  the source's result (\<open>Inl\<close> for \<open>{success: false, error}\<close>) paired with the room as the
  call leaves it. \<open>canStartGame\<close> and \<open>hasActiveGame\<close> return the error of an invalid
  outcome, \<open>None\<close> for \<open>{valid: true}\<close>.
\<close>

definition canStartGame :: "room \<Rightarrow> player_id \<Rightarrow> error option" where
  "canStartGame r playerId =
     (if ownerId r \<noteq> playerId then Some OnlyOwnerStart
      else if status r \<noteq> Waiting then Some GameInProgress
      else if length (players r) < 2 then Some NeedTwoPlayers
      else None)"

definition hasActiveGame :: "room \<Rightarrow> error option" where
  "hasActiveGame r =
     (if game r = None then Some NoActiveGame
      else if status r \<noteq> InGame then Some GameNotActive
      else None)"

definition initializeGameState :: "room \<Rightarrow> game_state" where
  "initializeGameState r =
     \<lparr>phase = WordSelect, currentRound = 1, totalRounds = rounds (settings r),
      drawerIndex = 0, drawerId = nth_opt (players r) 0, guessedPlayers = [],
      roundStartTime = None, selectedWord = None, maskedWord = None\<rparr>"

definition startGame :: "room \<Rightarrow> player_id \<Rightarrow> (error + game_state) \<times> room" where
  "startGame r playerId =
     (case canStartGame r playerId of
        Some e \<Rightarrow> (Inl e, r)
      | None \<Rightarrow> (let g = initializeGameState r
                 in (Inr g, r\<lparr>game := Some g, status := InGame\<rparr>)))"

record drawer_info =
  info_drawerId :: "player_id option"
  info_drawerIndex :: nat
  roundIncremented :: bool

text \<open>
  \<open>getNextDrawer\<close> reads \<open>room.game\<close> without a check: on a room with no game the
  property read of \<open>null\<close> raises.
\<close>

definition getNextDrawer :: "room \<Rightarrow> (error + drawer_info) \<times> room" where
  "getNextDrawer r =
     (case game r of
        None \<Rightarrow> (Inl (TypeError ''Cannot read properties of null''), r)
      | Some g \<Rightarrow>
          (let playerCount = length (players r);
               nextIndex = drawerIndex g + 1;
               wrapped = (nextIndex \<ge> playerCount);
               nextIndex' = (if wrapped then 0 else nextIndex);
               g1 = (if wrapped then g\<lparr>currentRound := currentRound g + 1\<rparr> else g);
               g2 = g1\<lparr>drawerIndex := nextIndex', drawerId := nth_opt (players r) nextIndex'\<rparr>
           in (Inr \<lparr>info_drawerId = drawerId g2, info_drawerIndex = nextIndex',
                     roundIncremented = wrapped\<rparr>,
               r\<lparr>game := Some g2\<rparr>)))"

definition startRound :: "room \<Rightarrow> (error + game_state) \<times> room" where
  "startRound r =
     (case hasActiveGame r of
        Some e \<Rightarrow> (Inl e, r)
      | None \<Rightarrow>
          (case game r of
             None \<Rightarrow> (Inl NoActiveGame, r)
           | Some g \<Rightarrow> (let g' = g\<lparr>guessedPlayers := [], phase := WordSelect\<rparr>
                        in (Inr g', r\<lparr>game := Some g'\<rparr>))))"

record end_round_result =
  nextPhase :: game_phase
  gameEnded :: bool

definition endRound :: "room \<Rightarrow> (error + end_round_result) \<times> room" where
  "endRound r =
     (case hasActiveGame r of
        Some e \<Rightarrow> (Inl e, r)
      | None \<Rightarrow>
          (case game r of
             None \<Rightarrow> (Inl NoActiveGame, r)
           | Some g \<Rightarrow>
               (let g' = g\<lparr>phase := RoundEnd\<rparr>;
                    isLastDrawer = (int (drawerIndex g') = int (length (players r)) - 1);
                    isLastRound = (currentRound g' \<ge> totalRounds g')
                in (if isLastDrawer \<and> isLastRound
                    then Inr \<lparr>nextPhase = GameEnd, gameEnded = True\<rparr>
                    else Inr \<lparr>nextPhase = WordSelect, gameEnded = False\<rparr>,
                    r\<lparr>game := Some g'\<rparr>))))"

record progress_result =
  drawerInfo :: drawer_info
  roundChanged :: bool

definition progressToNextDrawer :: "room \<Rightarrow> (error + progress_result) \<times> room" where
  "progressToNextDrawer r =
     (case hasActiveGame r of
        Some e \<Rightarrow> (Inl e, r)
      | None \<Rightarrow>
          (case getNextDrawer r of
             (Inl e, r1) \<Rightarrow> (Inl e, r1)
           | (Inr info, r1) \<Rightarrow>
               (Inr \<lparr>drawerInfo = info, roundChanged = roundIncremented info\<rparr>,
                snd (startRound r1))))"

definition endGame :: "room \<Rightarrow> (error + int) \<times> room" where
  "endGame r =
     (case hasActiveGame r of
        Some e \<Rightarrow> (Inl e, r)
      | None \<Rightarrow>
          (case game r of
             None \<Rightarrow> (Inl NoActiveGame, r)
           | Some g \<Rightarrow>
               (Inr (currentRound g), r\<lparr>game := Some (g\<lparr>phase := GameEnd\<rparr>), status := Finished\<rparr>)))"

definition resetGame :: "room \<Rightarrow> (error + unit) \<times> room" where
  "resetGame r = (Inr (), r\<lparr>game := None, status := Waiting\<rparr>)"

text \<open>The values of \<open>PHASES\<close>; \<open>transitionPhase\<close> receives the phase by its name.\<close>

fun phase_name :: "game_phase \<Rightarrow> string" where
  "phase_name Idle = ''idle''"
| "phase_name WordSelect = ''word_select''"
| "phase_name Drawing = ''drawing''"
| "phase_name RoundEnd = ''round_end''"
| "phase_name GameEnd = ''game_end''"

definition phase_of_name :: "string \<Rightarrow> game_phase option" where
  "phase_of_name n = find (\<lambda>p. phase_name p = n) [Idle, WordSelect, Drawing, RoundEnd, GameEnd]"

definition transitionPhase :: "room \<Rightarrow> string \<Rightarrow> (error + unit) \<times> room" where
  "transitionPhase r newPhase =
     (case hasActiveGame r of
        Some e \<Rightarrow> (Inl e, r)
      | None \<Rightarrow>
          (case game r of
             None \<Rightarrow> (Inl NoActiveGame, r)
           | Some g \<Rightarrow>
               (case phase_of_name newPhase of
                  None \<Rightarrow> (Inl (InvalidPhase newPhase), r)
                | Some p \<Rightarrow> (Inr (), r\<lparr>game := Some (g\<lparr>phase := p\<rparr>)\<rparr>))))"

definition isCurrentDrawer :: "room \<Rightarrow> player_id \<Rightarrow> bool" where
  "isCurrentDrawer r playerId =
     (case game r of None \<Rightarrow> False | Some g \<Rightarrow> drawerId g = Some playerId)"

section \<open>Word engine\<close>

definition WORD_LIST :: "string list" where
  "WORD_LIST =
   [''cat'', ''dog'', ''house'', ''tree'', ''car'', ''sun'', ''moon'', ''star'', ''book'',
     ''pen'', ''chair'', ''table'', ''door'', ''window'', ''phone'', ''computer'',
     ''keyboard'', ''mouse'', ''apple'', ''banana'', ''orange'', ''cake'', ''pizza'',
     ''hamburger'', ''ice cream'', ''bird'', ''fish'', ''lion'', ''tiger'', ''elephant'',
     ''giraffe'', ''monkey'', ''bear'', ''flower'', ''grass'', ''mountain'', ''ocean'',
     ''river'', ''beach'', ''cloud'', ''rain'', ''bicycle'', ''airplane'', ''train'',
     ''boat'', ''bus'', ''motorcycle'', ''truck'', ''hat'', ''shoes'', ''shirt'',
     ''pants'', ''dress'', ''jacket'', ''glasses'', ''watch'', ''camera'', ''guitar'',
     ''piano'', ''violin'', ''drum'', ''microphone'', ''speaker'', ''lighthouse'',
     ''bridge'', ''castle'', ''tower'', ''pyramid'', ''statue'', ''fountain'',
     ''butterfly'', ''dragonfly'', ''spider'', ''bee'', ''ant'', ''snake'', ''turtle'',
     ''frog'', ''cactus'', ''bamboo'', ''palm tree'', ''forest'', ''desert'', ''island'',
     ''volcano'', ''helicopter'', ''submarine'', ''rocket'', ''satellite'', ''telescope'',
     ''microscope'', ''backpack'', ''umbrella'', ''flashlight'', ''compass'', ''map'',
     ''globe'', ''flag'', ''crown'', ''sword'', ''shield'', ''treasure'', ''key'',
     ''lock'', ''chain'', ''ring'', ''kaleidoscope'', ''telescope'', ''microscope'',
     ''periscope'', ''binoculars'', ''architect'', ''engineer'', ''scientist'',
     ''astronaut'', ''pilot'', ''chef'', ''artist'', ''skyscraper'', ''cathedral'',
     ''monument'', ''amphitheater'', ''aqueduct'', ''colosseum'', ''chameleon'',
     ''peacock'', ''flamingo'', ''penguin'', ''ostrich'', ''eagle'', ''hawk'', ''tornado'',
     ''hurricane'', ''earthquake'', ''avalanche'', ''tsunami'', ''meteor'', ''saxophone'',
     ''trumpet'', ''trombone'', ''flute'', ''clarinet'', ''harmonica'', ''accordion'',
     ''knight'', ''wizard'', ''dragon'', ''unicorn'', ''phoenix'', ''mermaid'',
     ''vampire'']"

definition WORD_OPTIONS_COUNT :: nat where
  "WORD_OPTIONS_COUNT = 3"

text \<open>
  \<open>getWordPool\<close>: the builtin list followed by the lower-cased custom words that the
  builtin list does not contain (the filter runs before the push, so it compares with
  the builtin list only).
\<close>

definition getWordPool :: "string list \<Rightarrow> string list" where
  "getWordPool cw =
     (if length cw > 0
      then WORD_LIST @ filter (\<lambda>w. w \<notin> set WORD_LIST) (map toLowerCase cw)
      else WORD_LIST)"

text \<open>
  \<open>[...wordPool].sort(() => Math.random() - 0.5)\<close> returns the elements of the pool in an
  order that the random comparator decides. The order is a parameter: a list of picks
  \<open>ks\<close>, where each pick takes the element at position \<open>k mod n\<close> of the \<open>n\<close> elements
  not yet taken, and the elements left over when the picks run out follow in their
  order. Every list of picks gives a rearrangement of the pool and every rearrangement
  has its list of picks.
\<close>

fun shuffle_by :: "nat list \<Rightarrow> 'a list \<Rightarrow> 'a list" where
  "shuffle_by [] xs = xs"
| "shuffle_by (k # ks) xs =
     (if xs = [] then []
      else (let i = k mod length xs in xs ! i # shuffle_by ks (take i xs @ drop (Suc i) xs)))"

definition generateWordOptions :: "string list \<Rightarrow> nat \<Rightarrow> nat list \<Rightarrow> string list" where
  "generateWordOptions wordPool n ks =
     (let pool = (if length wordPool = 0 then WORD_LIST else wordPool);
          optionsCount = min n (length pool);
          shuffled = shuffle_by ks pool
      in take optionsCount shuffled)"

fun normalizeWord :: "jsval \<Rightarrow> string" where
  "normalizeWord (JStr w) = (if w = [] then [] else toLowerCase (trim w))"
| "normalizeWord _ = []"

definition generateOptionsForDrawer :: "room \<Rightarrow> nat list \<Rightarrow> error + string list" where
  "generateOptionsForDrawer r ks =
     (case hasActiveGame r of
        Some e \<Rightarrow> Inl e
      | None \<Rightarrow>
          (case game r of
             None \<Rightarrow> Inl NoActiveGame
           | Some g \<Rightarrow>
               if phase g \<noteq> WordSelect then Inl NotWordSelectPhase
               else Inr (generateWordOptions (getWordPool (customWords (settings r)))
                           WORD_OPTIONS_COUNT ks)))"

text \<open>
  \<open>selectWord\<close> and \<open>autoSelectWord\<close> store the word and its mask before they call
  \<open>transitionPhase\<close>; \<open>store_word\<close> is that shared tail.
\<close>

definition store_word :: "room \<Rightarrow> game_state \<Rightarrow> string \<Rightarrow> (error + string) \<times> room" where
  "store_word r g normalized =
     (let g' = g\<lparr>selectedWord := Some normalized, maskedWord := Some (maskWord normalized)\<rparr>;
          r1 = r\<lparr>game := Some g'\<rparr>
      in case transitionPhase r1 (phase_name Drawing) of
           (Inl e, r2) \<Rightarrow> (Inl e, r2)
         | (Inr u, r2) \<Rightarrow> (Inr (maskWord normalized), r2))"

definition selectWord :: "room \<Rightarrow> player_id \<Rightarrow> jsval \<Rightarrow> (error + string) \<times> room" where
  "selectWord r playerId word =
     (case hasActiveGame r of
        Some e \<Rightarrow> (Inl e, r)
      | None \<Rightarrow>
          (case game r of
             None \<Rightarrow> (Inl NoActiveGame, r)
           | Some g \<Rightarrow>
               if \<not> isCurrentDrawer r playerId then (Inl OnlyDrawerSelects, r)
               else if phase g \<noteq> WordSelect then (Inl NotWordSelectPhase, r)
               else (let normalized = normalizeWord word
                     in if length normalized = 0 then (Inl InvalidWordSelection, r)
                        else store_word r g normalized)))"

definition autoSelectWord :: "room \<Rightarrow> nat list \<Rightarrow> (error + string) \<times> room" where
  "autoSelectWord r ks =
     (case hasActiveGame r of
        Some e \<Rightarrow> (Inl e, r)
      | None \<Rightarrow>
          (case game r of
             None \<Rightarrow> (Inl NoActiveGame, r)
           | Some g \<Rightarrow>
               if phase g \<noteq> WordSelect then (Inl NotWordSelectPhase, r)
               else (case generateWordOptions (getWordPool (customWords (settings r)))
                            WORD_OPTIONS_COUNT ks of
                       [] \<Rightarrow> (Inl NoWordsAvailable, r)
                     | w # ws \<Rightarrow> store_word r g (normalizeWord (JStr w)))))"

definition getSelectedWord :: "room \<Rightarrow> string option" where
  "getSelectedWord r =
     (case game r of
        None \<Rightarrow> None
      | Some g \<Rightarrow> (case selectedWord g of
                     None \<Rightarrow> None
                   | Some w \<Rightarrow> if w = [] then None else Some w))"

definition clearWordSelection :: "room \<Rightarrow> room" where
  "clearWordSelection r =
     (case game r of
        None \<Rightarrow> r
      | Some g \<Rightarrow> r\<lparr>game := Some (g\<lparr>selectedWord := None, maskedWord := None\<rparr>)\<rparr>)"

section \<open>Guess engine\<close>

definition normalizeGuess :: "string \<Rightarrow> string" where
  "normalizeGuess guess = (if guess = [] then [] else toLowerCase (trim guess))"

definition validateGuessFormat :: "string \<Rightarrow> error + string" where
  "validateGuessFormat guess =
     (if guess = [] then Inl GuessMustBeString
      else (let normalized = normalizeGuess guess
            in if length normalized < 1 then Inl GuessEmpty
               else if length normalized > 50 then Inl GuessTooLong
               else Inr normalized))"

text \<open>
  \<open>validateGuess\<close>; the event router calls it with a guess it has checked to be a
  string. The result is \<open>isCorrect\<close>.
\<close>

definition validateGuess :: "room \<Rightarrow> player_id \<Rightarrow> string \<Rightarrow> (error + bool) \<times> room" where
  "validateGuess r playerId guess =
     (case hasActiveGame r of
        Some e \<Rightarrow> (Inl e, r)
      | None \<Rightarrow>
          (case game r of
             None \<Rightarrow> (Inl NoActiveGame, r)
           | Some g \<Rightarrow>
               if phase g \<noteq> Drawing then (Inl WrongPhaseForGuess, r)
               else if isCurrentDrawer r playerId then (Inl DrawerCannotGuess, r)
               else if playerId \<in> set (guessedPlayers g) then (Inl AlreadyGuessed, r)
               else (case validateGuessFormat guess of
                       Inl e \<Rightarrow> (Inl e, r)
                     | Inr normalizedGuess \<Rightarrow>
                         (case getSelectedWord r of
                            None \<Rightarrow> (Inl NoWordSelected, r)
                          | Some w \<Rightarrow>
                              (let isCorrect = (normalizedGuess = normalizeWord (JStr w))
                               in if isCorrect
                                  then (Inr True,
                                        r\<lparr>game := Some (g\<lparr>guessedPlayers := guessedPlayers g @ [playerId]\<rparr>)\<rparr>)
                                  else (Inr False, r))))))"

definition allGuessersGuessed :: "room \<Rightarrow> bool" where
  "allGuessersGuessed r =
     (case game r of
        None \<Rightarrow> False
      | Some g \<Rightarrow> length (guessedPlayers g)
                    \<ge> length (filter (\<lambda>playerId. Some playerId \<noteq> drawerId g) (players r)))"

section \<open>Score engine\<close>

subsection \<open>Double arithmetic\<close>

text \<open>
  An arithmetic operation on doubles returns the double nearest to the exact result, a
  tie going to the even mantissa. \<open>fl x\<close> is that double: with \<open>e\<close> the integer part of
  the binary logarithm of \<open>|x|\<close>, and at least -1022 (where the subnormal range begins),
  it is the multiple of \<open>2^(e - 52)\<close> nearest to \<open>x\<close>. Overflow to \<open>Infinity\<close> is not
  modelled: no operation of the score engine on time stamps and draw times comes near
  \<open>2^1024\<close>. \<open>bit_length n\<close> is the number of binary digits of \<open>n\<close>.
\<close>

function bit_length :: "int \<Rightarrow> nat" where
  "bit_length n = (if n \<le> 0 then 0 else Suc (bit_length (n div 2)))"
  by pat_completeness auto
termination
  by (relation "measure nat") auto

declare bit_length.simps [simp del]

definition pow2 :: "int \<Rightarrow> rat" where
  "pow2 k = (if 0 \<le> k then 2 ^ nat k else 1 / 2 ^ nat (- k))"

definition ilog2 :: "rat \<Rightarrow> int" where
  "ilog2 x =
     (if 1 \<le> x then int (bit_length \<lfloor>x\<rfloor>) - 1
      else (let b = int (bit_length \<lfloor>1 / x\<rfloor>)
            in if x * pow2 (b - 1) = 1 then - (b - 1) else - b))"

definition round_half_even :: "rat \<Rightarrow> int" where
  "round_half_even z =
     (let f = \<lfloor>z\<rfloor>; d = z - of_int f
      in if d < 1 / 2 then f else if 1 / 2 < d then f + 1 else if even f then f else f + 1)"

definition fl :: "rat \<Rightarrow> rat" where
  "fl x =
     (if x = 0 then 0
      else (let k = max (ilog2 \<bar>x\<bar>) (- 1022) - 52
            in of_int (round_half_even (x / pow2 k)) * pow2 k))"

definition fl_add :: "rat \<Rightarrow> rat \<Rightarrow> rat" where
  "fl_add x y = fl (x + y)"

definition fl_sub :: "rat \<Rightarrow> rat \<Rightarrow> rat" where
  "fl_sub x y = fl (x - y)"

definition fl_mul :: "rat \<Rightarrow> rat \<Rightarrow> rat" where
  "fl_mul x y = fl (x * y)"

definition fl_div :: "rat \<Rightarrow> rat \<Rightarrow> rat" where
  "fl_div x y = fl (x / y)"

subsection \<open>Scores\<close>

definition BASE_SCORE :: rat where
  "BASE_SCORE = 100"

definition DRAWER_SCORE_MULTIPLIER :: rat where
  "DRAWER_SCORE_MULTIPLIER = 1 / 2"

definition MAX_TIME_BONUS :: rat where
  "MAX_TIME_BONUS = 100"

definition MIN_SCORE :: int where
  "MIN_SCORE = 10"

definition calculateScore :: "rat \<Rightarrow> rat \<Rightarrow> bool \<Rightarrow> int" where
  "calculateScore roundTime guessTime isDrawer =
     (if roundTime \<le> 0 \<or> guessTime < 0 \<or> guessTime > roundTime then MIN_SCORE
      else (let timeRatio = fl_div guessTime roundTime;
                timeBonus = fl_mul MAX_TIME_BONUS (fl_sub 1 timeRatio);
                score0 = fl_add BASE_SCORE timeBonus;
                score1 = (if isDrawer then of_int \<lfloor>fl_mul score0 DRAWER_SCORE_MULTIPLIER\<rfloor>
                          else score0)
            in max MIN_SCORE \<lfloor>score1\<rfloor>))"

text \<open>
  \<open>calculateScore\<close> on a guess time that may be \<open>NaN\<close> (\<open>None\<close>): the difference of a
  time stamp and an \<open>undefined\<close> round start. Every comparison with \<open>NaN\<close> is false and
  the arithmetic propagates it, so the result is \<open>NaN\<close> unless the round time alone
  triggers the guard.
\<close>

definition calculateScore_js :: "rat \<Rightarrow> rat option \<Rightarrow> bool \<Rightarrow> int option" where
  "calculateScore_js roundTime guessTime isDrawer =
     (case guessTime of
        Some t \<Rightarrow> Some (calculateScore roundTime t isDrawer)
      | None \<Rightarrow> if roundTime \<le> 0 then Some MIN_SCORE else None)"

text \<open>
  \<open>roundGuessTimes\<close>: room id to round number to player id to time stamp. \<open>getGuessTime\<close>
  ends in \<open>|| null\<close>, so a stored \<open>0\<close> reads as absent.
\<close>

type_synonym guess_times = "string \<rightharpoonup> (int \<rightharpoonup> (player_id \<rightharpoonup> int))"

definition recordGuessTime :: "guess_times \<Rightarrow> string \<Rightarrow> int \<Rightarrow> player_id \<Rightarrow> int \<Rightarrow> guess_times" where
  "recordGuessTime gt roomId roundNo playerId timestamp =
     (let roomData = (case gt roomId of None \<Rightarrow> Map.empty | Some d \<Rightarrow> d);
          roundMap = (case roomData roundNo of None \<Rightarrow> Map.empty | Some m \<Rightarrow> m)
      in gt(roomId \<mapsto> roomData(roundNo \<mapsto> roundMap(playerId \<mapsto> timestamp))))"

definition getGuessTime :: "guess_times \<Rightarrow> string \<Rightarrow> int \<Rightarrow> player_id \<Rightarrow> int option" where
  "getGuessTime gt roomId roundNo playerId =
     (case gt roomId of
        None \<Rightarrow> None
      | Some roomData \<Rightarrow>
          (case roomData roundNo of
             None \<Rightarrow> None
           | Some m \<Rightarrow> (case m playerId of
                          None \<Rightarrow> None
                        | Some t \<Rightarrow> if t = 0 then None else Some t)))"

text \<open>The player objects by id (\<open>playerById\<close> of \<open>players.js\<close>).\<close>

type_synonym registry = "player_id \<rightharpoonup> player"

record award_result =
  award_score :: "int option"
  award_total :: int

text \<open>
  \<open>awardGuessScore(room, playerId, guessTimestamp, getPlayer, updatePlayerScore)\<close>.
  \<open>getPlayer\<close> is the lookup in the registry, whose player objects the function also
  mutates (\<open>player.score = 0\<close>). \<open>updatePlayerScore\<close> is the value the caller passes:
  \<open>None\<close> when it is \<open>undefined\<close>, and then the call of it raises, after the guess time
  has been recorded and the score property initialised. \<open>now\<close> is the value of
  \<open>Date.now()\<close>; the time stamps are integers, as \<open>Date.now()\<close> returns them. The state
  is the pair of \<open>roundGuessTimes\<close> and the registry. \<open>award_score\<close> is \<open>None\<close> for
  \<open>NaN\<close>.
\<close>

definition awardGuessScore ::
  "room \<Rightarrow> player_id \<Rightarrow> int \<Rightarrow> int \<Rightarrow> (player_id \<Rightarrow> int \<Rightarrow> registry \<Rightarrow> registry) option
     \<Rightarrow> guess_times \<times> registry \<Rightarrow> (error + award_result) \<times> guess_times \<times> registry" where
  "awardGuessScore r playerId guessTimestamp now updatePlayerScore st =
     (case st of (gt, reg) \<Rightarrow>
       (case hasActiveGame r of
          Some e \<Rightarrow> (Inl e, gt, reg)
        | None \<Rightarrow>
            (case game r of
               None \<Rightarrow> (Inl NoActiveGame, gt, reg)
             | Some g \<Rightarrow>
                 (case getGuessTime gt (room_id r) (currentRound g) playerId of
                    Some existingTime \<Rightarrow>
                      (case reg playerId of
                         None \<Rightarrow> (Inl PlayerNotFound, gt, reg)
                       | Some p \<Rightarrow>
                           (Inr \<lparr>award_score =
                                   calculateScore_js (of_int (drawTime (settings r)))
                                     (map_option
                                        (\<lambda>s. fl_div (fl_sub (of_int existingTime) (of_int s)) 1000)
                                        (roundStartTime g))
                                     (isCurrentDrawer r playerId),
                                 award_total = (case p_score p of None \<Rightarrow> 0 | Some sc \<Rightarrow> sc)\<rparr>,
                            gt, reg))
                  | None \<Rightarrow>
                      (let gt' = recordGuessTime gt (room_id r) (currentRound g) playerId guessTimestamp;
                           roundStart = (case roundStartTime g of
                                           None \<Rightarrow> now
                                         | Some s \<Rightarrow> if s = 0 then now else s);
                           guessTimeSeconds =
                             fl_div (fl_sub (of_int guessTimestamp) (of_int roundStart)) 1000;
                           isDrawer = isCurrentDrawer r playerId;
                           roundScore = calculateScore (of_int (drawTime (settings r)))
                                          guessTimeSeconds isDrawer
                       in case reg playerId of
                            None \<Rightarrow> (Inl PlayerNotFound, gt', reg)
                          | Some p \<Rightarrow>
                              (let old = (case p_score p of None \<Rightarrow> 0 | Some sc \<Rightarrow> sc);
                                   reg' = reg(playerId \<mapsto> p\<lparr>p_score := Some old\<rparr>);
                                   newTotalScore = old + roundScore
                               in case updatePlayerScore of
                                    None \<Rightarrow>
                                      (Inl (TypeError ''updatePlayerScore is not a function''),
                                       gt', reg')
                                  | Some update \<Rightarrow>
                                      (Inr \<lparr>award_score = Some roundScore,
                                            award_total = newTotalScore\<rparr>,
                                       gt', update playerId newTotalScore reg')))))))"

definition initializeRoundStartTime :: "room \<Rightarrow> int \<Rightarrow> room" where
  "initializeRoundStartTime r startTime =
     (case game r of
        None \<Rightarrow> r
      | Some g \<Rightarrow> r\<lparr>game := Some (g\<lparr>roundStartTime := Some startTime\<rparr>)\<rparr>)"

text \<open>
  The per-guesser award as the specification words it: the elapsed seconds, their ratio
  to the draw time clamped to \<open>[0, 1]\<close>, and the score. \<open>spec_guess_score\<close> carries the
  operations out on doubles, in the order written; \<open>exact_guess_score\<close> is the same
  formula in exact arithmetic.
\<close>

definition clamp01 :: "rat \<Rightarrow> rat" where
  "clamp01 x = max 0 (min 1 x)"

definition elapsed_seconds :: "int \<Rightarrow> int \<Rightarrow> rat" where
  "elapsed_seconds s t = fl_div (fl_sub (of_int t) (of_int s)) 1000"

definition spec_guess_score :: "int \<Rightarrow> rat \<Rightarrow> int" where
  "spec_guess_score D elapsed =
     max 10 \<lfloor>fl_add 100 (fl_mul 100 (fl_sub 1 (clamp01 (fl_div elapsed (of_int D)))))\<rfloor>"

definition exact_guess_score :: "int \<Rightarrow> int \<Rightarrow> int \<Rightarrow> int" where
  "exact_guess_score D s t =
     max 10 \<lfloor>100 + 100 * (1 - clamp01 (((of_int t - of_int s) / 1000) / of_int D))\<rfloor>"

section \<open>Player registry\<close>

text \<open>
  \<open>players.js\<close> keeps two maps onto the same player objects; the model keeps the objects
  by player id and lets the socket index hold the id. \<open>createPlayer\<close> takes the values
  of \<open>randomUUID()\<close> and of \<open>Math.floor(Math.random() * 1000)\<close> as parameters.
\<close>

record server =
  by_socket :: "string \<rightharpoonup> player_id"
  by_id :: registry
  room_map :: rooms

definition digit_char :: "nat \<Rightarrow> char" where
  "digit_char d = char_of (48 + d mod 10)"

definition generateDefaultName :: "nat \<Rightarrow> string" where
  "generateDefaultName n =
     ''Player'' @ [digit_char (n div 100), digit_char (n div 10), digit_char n]"

definition createPlayer :: "server \<Rightarrow> string \<Rightarrow> player_id \<Rightarrow> nat \<Rightarrow> player \<times> server" where
  "createPlayer srv sock uuid n =
     (let p = \<lparr>p_id = uuid, p_socketId = sock, p_name = generateDefaultName (n mod 1000),
                p_roomId = None, p_score = None\<rparr>
      in (p, srv\<lparr>by_socket := (by_socket srv)(sock \<mapsto> uuid), by_id := (by_id srv)(uuid \<mapsto> p)\<rparr>))"

definition getPlayer :: "server \<Rightarrow> string \<Rightarrow> player option" where
  "getPlayer srv sock = (case by_socket srv sock of None \<Rightarrow> None | Some pid \<Rightarrow> by_id srv pid)"

definition getPlayerById :: "server \<Rightarrow> player_id \<Rightarrow> player option" where
  "getPlayerById srv pid = by_id srv pid"

definition updatePlayerRoom :: "server \<Rightarrow> player_id \<Rightarrow> string option \<Rightarrow> server" where
  "updatePlayerRoom srv pid rid =
     (case by_id srv pid of
        None \<Rightarrow> srv
      | Some p \<Rightarrow> srv\<lparr>by_id := (by_id srv)(pid \<mapsto> p\<lparr>p_roomId := rid\<rparr>)\<rparr>)"

text \<open>The names that \<open>module.exports\<close> of \<open>players.js\<close> binds.\<close>

definition playerManager_exports :: "string list" where
  "playerManager_exports =
     [''createPlayer'', ''updatePlayerName'', ''updatePlayerRoom'', ''removePlayer'',
      ''getPlayer'', ''getPlayerById'', ''getAllPlayers'', ''getPlayerCount'']"

text \<open>
  A call \<open>module.name(...)\<close> of a name that the module object does not bind calls
  \<open>undefined\<close> and raises a \<open>TypeError\<close>.
\<close>

definition call_export :: "string list \<Rightarrow> string \<Rightarrow> string \<Rightarrow> error option" where
  "call_export exports modl nm =
     (if nm \<in> set exports then None
      else Some (TypeError (modl @ ''.'' @ nm @ '' is not a function'')))"

section \<open>Serialization\<close>

fun status_name :: "room_status \<Rightarrow> string" where
  "status_name Waiting = ''waiting''"
| "status_name InGame = ''in_game''"
| "status_name Finished = ''finished''"

definition settings_json :: "room_settings \<Rightarrow> jsval" where
  "settings_json st =
     JObj [(''maxPlayers'', JNum (of_int (maxPlayers st))),
           (''drawTime'', JNum (of_int (drawTime st))),
           (''rounds'', JNum (of_int (rounds st))),
           (''hints'', JBool (hints st)),
           (''customWords'', JArr (map JStr (customWords st)))]"

text \<open>
  \<open>serializeRoom(room, getPlayer)\<close> of the room module: the member ids are mapped to
  player objects, the ids with no player object are dropped, and each remaining player
  becomes an entry.
\<close>

definition serializeRoom :: "room \<Rightarrow> (player_id \<Rightarrow> player option) \<Rightarrow> jsval" where
  "serializeRoom r getPlayerFn =
     (let playerData =
            map (\<lambda>p. JObj [(''id'', JStr (p_id p)),
                           (''name'', JStr (p_name p)),
                           (''isOwner'', JBool (p_id p = ownerId r))])
              (map the (filter (\<lambda>p. p \<noteq> None) (map getPlayerFn (players r))))
      in JObj [(''id'', JStr (room_id r)),
               (''ownerId'', JStr (ownerId r)),
               (''players'', JArr playerData),
               (''settings'', settings_json (settings r)),
               (''status'', JStr (status_name (status r)))])"

text \<open>\<open>serializeGameState(room)\<close> of the event router.\<close>

definition serializeGameState :: "room \<Rightarrow> jsval" where
  "serializeGameState r =
     (case game r of
        None \<Rightarrow> JNull
      | Some g \<Rightarrow>
          JObj [(''phase'', JStr (phase_name (phase g))),
                (''currentRound'', JNum (of_int (currentRound g))),
                (''totalRounds'', JNum (of_int (totalRounds g))),
                (''drawerId'', (case drawerId g of None \<Rightarrow> JUndefined | Some d \<Rightarrow> JStr d)),
                (''drawerIndex'', JNum (of_nat (drawerIndex g))),
                (''guessedPlayers'', JArr (map JStr (guessedPlayers g))),
                (''maskedWord'', (case maskedWord g of
                                    None \<Rightarrow> JNull
                                  | Some m \<Rightarrow> if m = [] then JNull else JStr m))])"

text \<open>The property names of an object, and all property names that occur in a value.\<close>

fun obj_keys :: "jsval \<Rightarrow> string list" where
  "obj_keys (JObj kvs) = map fst kvs"
| "obj_keys _ = []"

fun all_keys :: "jsval \<Rightarrow> string list" where
  "all_keys (JObj kvs) = concat (map (\<lambda>kv. fst kv # all_keys (snd kv)) kvs)"
| "all_keys (JArr vs) = concat (map all_keys vs)"
| "all_keys _ = []"

section \<open>Event router: game start and replay\<close>

text \<open>
  A handler either returns, having sent the error of a \<open>game_error\<close> event (or none), or
  raises; either way the server state is what the handler has made of it. The model of
  the two handlers ends at their call of \<open>playerManager.resetPlayerScores\<close>.
\<close>

datatype handler_outcome = Returned "error option" server | Raised error server

definition getRoom :: "rooms \<Rightarrow> jsval \<Rightarrow> room option" where
  "getRoom rs roomId = rs (normalizeRoomId roomId)"

definition start_game_handler :: "server \<Rightarrow> string \<Rightarrow> handler_outcome" where
  "start_game_handler srv sock =
     (case getPlayer srv sock of
        None \<Rightarrow> Returned (Some PlayerNotFound) srv
      | Some p \<Rightarrow>
          (case p_roomId p of
             None \<Rightarrow> Returned (Some NotInARoom) srv
           | Some rid \<Rightarrow>
               if rid = [] then Returned (Some NotInARoom) srv
               else (case getRoom (room_map srv) (JStr rid) of
                       None \<Rightarrow> Returned (Some RoomNotFound) srv
                     | Some r \<Rightarrow>
                         (case startGame r (p_id p) of
                            (Inl e, r') \<Rightarrow> Returned (Some e) srv
                          | (Inr g, r') \<Rightarrow>
                              (let srv' = srv\<lparr>room_map := (room_map srv)(normalizeRoomId (JStr rid) \<mapsto> r')\<rparr>
                               in case call_export playerManager_exports ''playerManager''
                                         ''resetPlayerScores'' of
                                    Some e \<Rightarrow> Raised e srv'
                                  | None \<Rightarrow> Returned None srv')))))"

definition play_again_handler :: "server \<Rightarrow> string \<Rightarrow> handler_outcome" where
  "play_again_handler srv sock =
     (case getPlayer srv sock of
        None \<Rightarrow> Returned (Some PlayerNotFound) srv
      | Some p \<Rightarrow>
          (case p_roomId p of
             None \<Rightarrow> Returned (Some NotInARoom) srv
           | Some rid \<Rightarrow>
               if rid = [] then Returned (Some NotInARoom) srv
               else (case getRoom (room_map srv) (JStr rid) of
                       None \<Rightarrow> Returned (Some RoomNotFound) srv
                     | Some r \<Rightarrow>
                         if ownerId r \<noteq> p_id p then Returned (Some OnlyOwnerPlayAgain) srv
                         else if status r \<noteq> Finished then Returned (Some GameNotFinished) srv
                         else (case resetGame r of
                                 (Inl e, r') \<Rightarrow> Returned (Some e) srv
                               | (Inr u, r') \<Rightarrow>
                                   (let srv' = srv\<lparr>room_map := (room_map srv)(normalizeRoomId (JStr rid) \<mapsto> r')\<rparr>
                                    in case call_export playerManager_exports ''playerManager''
                                              ''resetPlayerScores'' of
                                         Some e \<Rightarrow> Raised e srv'
                                       | None \<Rightarrow> Returned None srv')))))"

section \<open>Runs of the engines over the room registry\<close>

text \<open>
  One event per exported operation that changes a room. The room operations address the
  room as the source does; the game, word and guess operations receive the room object
  that is stored under the given id.
\<close>

datatype event =
    CreateRoom player_id jsval "nat \<Rightarrow> nat"
  | JoinRoom player_id jsval
  | LeaveRoom player_id jsval
  | UpdateRoomSettings player_id jsval jsval
  | StartGame string player_id
  | StartRound string
  | EndRound string
  | ProgressToNextDrawer string
  | EndGame string
  | ResetGame string
  | TransitionPhase string string
  | SelectWord string player_id jsval
  | AutoSelectWord string "nat list"
  | ClearWordSelection string
  | ValidateGuess string player_id string
  | InitializeRoundStartTime string int

definition on_room :: "rooms \<Rightarrow> string \<Rightarrow> (room \<Rightarrow> room) \<Rightarrow> rooms" where
  "on_room rs code f = (case rs code of None \<Rightarrow> rs | Some r \<Rightarrow> rs(code \<mapsto> f r))"

fun step :: "rooms \<Rightarrow> event \<Rightarrow> rooms" where
  "step rs (CreateRoom pid raw rnd) =
     (case createRoom rs rnd pid raw of Inl e \<Rightarrow> rs | Inr (r, rs') \<Rightarrow> rs')"
| "step rs (JoinRoom pid rid) =
     (case joinRoom rs pid rid of Inl e \<Rightarrow> rs | Inr (r, rs') \<Rightarrow> rs')"
| "step rs (LeaveRoom pid rid) =
     (case leaveRoom rs pid rid of Inl e \<Rightarrow> rs | Inr (r, rs') \<Rightarrow> rs')"
| "step rs (UpdateRoomSettings pid rid raw) =
     (case updateRoomSettings rs pid rid raw of Inl e \<Rightarrow> rs | Inr (st, rs') \<Rightarrow> rs')"
| "step rs (StartGame code pid) = on_room rs code (\<lambda>r. snd (startGame r pid))"
| "step rs (StartRound code) = on_room rs code (\<lambda>r. snd (startRound r))"
| "step rs (EndRound code) = on_room rs code (\<lambda>r. snd (endRound r))"
| "step rs (ProgressToNextDrawer code) = on_room rs code (\<lambda>r. snd (progressToNextDrawer r))"
| "step rs (EndGame code) = on_room rs code (\<lambda>r. snd (endGame r))"
| "step rs (ResetGame code) = on_room rs code (\<lambda>r. snd (resetGame r))"
| "step rs (TransitionPhase code ph) = on_room rs code (\<lambda>r. snd (transitionPhase r ph))"
| "step rs (SelectWord code pid w) = on_room rs code (\<lambda>r. snd (selectWord r pid w))"
| "step rs (AutoSelectWord code ks) = on_room rs code (\<lambda>r. snd (autoSelectWord r ks))"
| "step rs (ClearWordSelection code) = on_room rs code clearWordSelection"
| "step rs (ValidateGuess code pid guess) = on_room rs code (\<lambda>r. snd (validateGuess r pid guess))"
| "step rs (InitializeRoundStartTime code t) = on_room rs code (\<lambda>r. initializeRoundStartTime r t)"

definition run :: "rooms \<Rightarrow> event list \<Rightarrow> rooms" where
  "run rs es = foldl step rs es"

inductive reachable :: "rooms \<Rightarrow> bool" where
  reachable_init: "reachable Map.empty"
| reachable_step: "reachable rs \<Longrightarrow> reachable (step rs e)"

section \<open>Membership never exceeds the capacity\<close>

definition capacity_ok :: "room \<Rightarrow> bool" where
  "capacity_ok r = (int (length (players r)) \<le> maxPlayers (settings r))"

lemma validateSettings_maxPlayers: "2 \<le> maxPlayers (validateSettings raw) \<and> maxPlayers (validateSettings raw) \<le> 12"
  by (cases "js_get raw ''maxPlayers''")
     (auto simp: validateSettings_def DEFAULT_SETTINGS_def clamp_floor_def)

lemma createRoom_result:
  assumes "createRoom rs rnd pid raw = Inr (r, rs')"
  shows "players r = [pid] \<and> 2 \<le> maxPlayers (settings r) \<and> status r = Waiting \<and> game r = None
         \<and> rs' = rs(room_id r \<mapsto> r)"
  using assms validateSettings_maxPlayers[of raw]
  by (auto simp: createRoom_def Let_def split: sum.splits)

lemma joinRoom_result:
  assumes "joinRoom rs pid rid = Inr (r', rs')"
  shows "\<exists>r. rs (normalizeRoomId rid) = Some r \<and> status r = Waiting
            \<and> int (length (players r)) < maxPlayers (settings r)
            \<and> r' = r\<lparr>players := players r @ [pid]\<rparr> \<and> rs' = rs(normalizeRoomId rid \<mapsto> r')"
  using assms
  by (auto simp: joinRoom_def Let_def split: option.splits if_splits)

lemma joinRoom_full:
  assumes "rs (normalizeRoomId rid) = Some r" and "status r = Waiting" and "pid \<notin> set (players r)"
    and "int (length (players r)) \<ge> maxPlayers (settings r)"
  shows "joinRoom rs pid rid = Inl RoomFull"
  using assms by (simp add: joinRoom_def)

lemma indexOf_Some: "indexOf xs x = Some i \<Longrightarrow> i < length xs \<and> xs ! i = x"
  by (induction xs arbitrary: i) (auto split: if_splits)

lemma length_splice1: "i < length xs \<Longrightarrow> length (splice1 i xs) = length xs - 1"
  by (simp add: splice1_def)

lemma leaveRoom_result:
  assumes "leaveRoom rs pid rid = Inr (ro, rs')"
  shows "\<exists>r i. rs (normalizeRoomId rid) = Some r \<and> indexOf (players r) pid = Some i
            \<and> (if length (players r) = 1 then ro = None \<and> rs' = rs(normalizeRoomId rid := None)
                else \<exists>ow. ro = Some (r\<lparr>players := splice1 i (players r), ownerId := ow\<rparr>)
                         \<and> rs' = rs(normalizeRoomId rid \<mapsto> r\<lparr>players := splice1 i (players r), ownerId := ow\<rparr>))"
proof -
  from assms obtain r i where r: "rs (normalizeRoomId rid) = Some r"
    and i: "indexOf (players r) pid = Some i"
    by (auto simp: leaveRoom_def Let_def split: option.splits)
  from indexOf_Some[OF i] have il: "i < length (players r)" by simp
  then have len: "length (splice1 i (players r)) = length (players r) - 1"
    by (rule length_splice1)
  show ?thesis
  proof (cases "length (players r) = 1")
    case True
    with assms r i len show ?thesis by (auto simp: leaveRoom_def Let_def)
  next
    case False
    with il have "length (splice1 i (players r)) \<noteq> 0" using len by simp
    with assms r i False show ?thesis
      by (auto simp: leaveRoom_def Let_def split: if_splits intro: exI[of _ "ownerId r"])
  qed
qed

lemma updateRoomSettings_result:
  assumes "updateRoomSettings rs pid rid raw = Inr (st, rs')"
  shows "\<exists>r. rs (normalizeRoomId rid) = Some r \<and> int (length (players r)) \<le> maxPlayers st
            \<and> st = validateSettings raw \<and> rs' = rs(normalizeRoomId rid \<mapsto> r\<lparr>settings := st\<rparr>)"
  using assms
  by (auto simp: updateRoomSettings_def Let_def split: option.splits if_splits)

lemma updateRoomSettings_too_small:
  assumes "rs (normalizeRoomId rid) = Some r" and "ownerId r = pid" and "status r = Waiting"
    and "maxPlayers (validateSettings raw) < int (length (players r))"
  shows "updateRoomSettings rs pid rid raw = Inl (MaxPlayersBelowCount (length (players r)))"
  using assms by (simp add: updateRoomSettings_def)

text \<open>The game, word and guess operations leave membership and settings alone.\<close>

definition same_lobby :: "room \<Rightarrow> room \<Rightarrow> bool" where
  "same_lobby r r' = (players r' = players r \<and> settings r' = settings r \<and> room_id r' = room_id r
                      \<and> ownerId r' = ownerId r)"

lemma same_lobby_startRound: "same_lobby r (snd (startRound r))"
  by (auto simp: same_lobby_def startRound_def Let_def split: option.splits)

lemma same_lobby_transitionPhase: "same_lobby r (snd (transitionPhase r ph))"
  by (auto simp: same_lobby_def transitionPhase_def split: option.splits)

lemma same_lobby_store_word: "game r = Some g0 \<Longrightarrow> same_lobby r (snd (store_word r g w))"
  using same_lobby_transitionPhase[of "r\<lparr>game := Some (g\<lparr>selectedWord := Some w, maskedWord := Some (maskWord w)\<rparr>)\<rparr>" "phase_name Drawing"]
  by (auto simp: same_lobby_def store_word_def Let_def split: prod.splits sum.splits)

lemma same_lobby_ops:
  "same_lobby r (snd (startGame r pid))"
  "same_lobby r (snd (endRound r))"
  "same_lobby r (snd (progressToNextDrawer r))"
  "same_lobby r (snd (endGame r))"
  "same_lobby r (snd (resetGame r))"
  "same_lobby r (snd (selectWord r pid w))"
  "same_lobby r (snd (autoSelectWord r ks))"
  "same_lobby r (clearWordSelection r)"
  "same_lobby r (snd (validateGuess r pid guess))"
  "same_lobby r (initializeRoundStartTime r t)"
proof -
  show "same_lobby r (snd (startGame r pid))"
    by (auto simp: same_lobby_def startGame_def Let_def split: option.splits)
  show "same_lobby r (snd (endRound r))"
    by (auto simp: same_lobby_def endRound_def Let_def split: option.splits)
  show "same_lobby r (snd (progressToNextDrawer r))"
    using same_lobby_startRound[of "snd (getNextDrawer r)"]
    by (auto simp: same_lobby_def progressToNextDrawer_def getNextDrawer_def Let_def
        split: option.splits prod.splits sum.splits)
  show "same_lobby r (snd (endGame r))"
    by (auto simp: same_lobby_def endGame_def split: option.splits)
  show "same_lobby r (snd (resetGame r))"
    by (auto simp: same_lobby_def resetGame_def)
  show "same_lobby r (snd (selectWord r pid w))"
    using same_lobby_store_word[of r]
    by (auto simp: selectWord_def Let_def same_lobby_def split: option.splits)
  show "same_lobby r (snd (autoSelectWord r ks))"
    using same_lobby_store_word[of r]
    by (auto simp: autoSelectWord_def Let_def same_lobby_def split: option.splits list.splits)
  show "same_lobby r (clearWordSelection r)"
    by (auto simp: same_lobby_def clearWordSelection_def split: option.splits)
  show "same_lobby r (snd (validateGuess r pid guess))"
    by (auto simp: same_lobby_def validateGuess_def Let_def split: option.splits sum.splits)
  show "same_lobby r (initializeRoundStartTime r t)"
    by (auto simp: same_lobby_def initializeRoundStartTime_def split: option.splits)
qed

definition capacity_inv :: "rooms \<Rightarrow> bool" where
  "capacity_inv rs = (\<forall>code r. rs code = Some r \<longrightarrow> capacity_ok r)"

lemma capacity_inv_on_room:
  assumes "capacity_inv rs" and "\<And>r. same_lobby r (f r)"
  shows "capacity_inv (on_room rs code f)"
  using assms
  by (auto simp: capacity_inv_def on_room_def capacity_ok_def same_lobby_def split: option.splits)

lemma capacity_inv_step:
  assumes "capacity_inv rs"
  shows "capacity_inv (step rs e)"
proof (cases e)
  case (CreateRoom pid raw rnd)
  show ?thesis
  proof (cases "createRoom rs rnd pid raw")
    case (Inl a)
    with CreateRoom assms show ?thesis by simp
  next
    case (Inr b)
    then obtain r rs' where b: "createRoom rs rnd pid raw = Inr (r, rs')" by (cases b) auto
    from createRoom_result[OF b] assms CreateRoom b show ?thesis
      by (auto simp: capacity_inv_def capacity_ok_def split: if_splits)
  qed
next
  case (JoinRoom pid rid)
  show ?thesis
  proof (cases "joinRoom rs pid rid")
    case (Inl a)
    with JoinRoom assms show ?thesis by simp
  next
    case (Inr b)
    then obtain r' rs' where b: "joinRoom rs pid rid = Inr (r', rs')" by (cases b) auto
    from joinRoom_result[OF b] assms JoinRoom b show ?thesis
      by (auto simp: capacity_inv_def capacity_ok_def split: if_splits)
  qed
next
  case (LeaveRoom pid rid)
  show ?thesis
  proof (cases "leaveRoom rs pid rid")
    case (Inl a)
    with LeaveRoom assms show ?thesis by simp
  next
    case (Inr b)
    then obtain ro rs' where b: "leaveRoom rs pid rid = Inr (ro, rs')" by (cases b) auto
    from leaveRoom_result[OF b] obtain r i where
      r: "rs (normalizeRoomId rid) = Some r" and i: "indexOf (players r) pid = Some i"
      and c: "if length (players r) = 1 then ro = None \<and> rs' = rs(normalizeRoomId rid := None)
                else \<exists>ow. ro = Some (r\<lparr>players := splice1 i (players r), ownerId := ow\<rparr>)
                         \<and> rs' = rs(normalizeRoomId rid \<mapsto> r\<lparr>players := splice1 i (players r), ownerId := ow\<rparr>)"
      by blast
    from indexOf_Some[OF i] have "length (splice1 i (players r)) \<le> length (players r)"
      by (simp add: length_splice1)
    moreover have "int (length (players r)) \<le> maxPlayers (settings r)"
      using assms r by (auto simp: capacity_inv_def capacity_ok_def)
    ultimately have "int (length (splice1 i (players r))) \<le> maxPlayers (settings r)"
      by linarith
    with assms c have "capacity_inv rs'"
      by (auto simp: capacity_inv_def capacity_ok_def split: if_splits)
    with LeaveRoom b show ?thesis by simp
  qed
next
  case (UpdateRoomSettings pid rid raw)
  show ?thesis
  proof (cases "updateRoomSettings rs pid rid raw")
    case (Inl a)
    with UpdateRoomSettings assms show ?thesis by simp
  next
    case (Inr b)
    then obtain st rs' where b: "updateRoomSettings rs pid rid raw = Inr (st, rs')" by (cases b) auto
    from updateRoomSettings_result[OF b] assms UpdateRoomSettings b show ?thesis
      by (auto simp: capacity_inv_def capacity_ok_def split: if_splits)
  qed
qed (use assms in \<open>simp_all add: capacity_inv_on_room same_lobby_ops same_lobby_startRound same_lobby_transitionPhase\<close>)

lemma reachable_capacity: "reachable rs \<Longrightarrow> capacity_inv rs"
  by (induction rule: reachable.induct) (simp_all add: capacity_inv_def capacity_inv_step[unfolded capacity_inv_def])

lemma reachable_run: "reachable rs \<Longrightarrow> reachable (run rs es)"
  unfolding run_def by (induction es arbitrary: rs) (auto intro: reachable_step)


text \<open>
  C10. In every reachable state of the room registry each room has at most
  \<open>settings.maxPlayers\<close> members: \<open>createRoom\<close> makes a room with one member and a
  capacity of at least 2; \<open>joinRoom\<close> answers 'Room is full' when the members of a
  waiting room equal the capacity and the player is not yet one of them;
  \<open>updateRoomSettings\<close>, called by the owner of a waiting room, rejects a capacity below
  the member count; and a \<open>leaveRoom\<close> that keeps the room leaves it with fewer members.
\<close>

theorem room_capacity:
  "(reachable rs \<longrightarrow> (\<forall>code r. rs code = Some r \<longrightarrow> int (length (players r)) \<le> maxPlayers (settings r)))
   \<and> (createRoom rs rnd pid raw = Inr (r1, rs1) \<longrightarrow> players r1 = [pid] \<and> 2 \<le> maxPlayers (settings r1))
   \<and> (rs (normalizeRoomId rid) = Some r \<and> status r = Waiting \<and> pid \<notin> set (players r)
        \<and> int (length (players r)) = maxPlayers (settings r)
      \<longrightarrow> joinRoom rs pid rid = Inl RoomFull)
   \<and> (rs (normalizeRoomId rid) = Some r \<and> ownerId r = pid \<and> status r = Waiting
        \<and> maxPlayers (validateSettings raw) < int (length (players r))
      \<longrightarrow> updateRoomSettings rs pid rid raw = Inl (MaxPlayersBelowCount (length (players r))))
   \<and> (rs (normalizeRoomId rid) = Some r \<and> leaveRoom rs pid rid = Inr (Some r2, rs2)
      \<longrightarrow> length (players r2) < length (players r))"
proof (intro conjI impI)
  assume "reachable rs"
  then show "\<forall>code r. rs code = Some r \<longrightarrow> int (length (players r)) \<le> maxPlayers (settings r)"
    using reachable_capacity by (simp add: capacity_inv_def capacity_ok_def)
next
  assume c: "createRoom rs rnd pid raw = Inr (r1, rs1)"
  from createRoom_result[OF c] show "players r1 = [pid]" and "2 \<le> maxPlayers (settings r1)"
    by simp_all
next
  assume "rs (normalizeRoomId rid) = Some r \<and> status r = Waiting \<and> pid \<notin> set (players r)
        \<and> int (length (players r)) = maxPlayers (settings r)"
  then show "joinRoom rs pid rid = Inl RoomFull" by (simp add: joinRoom_full)
next
  assume "rs (normalizeRoomId rid) = Some r \<and> ownerId r = pid \<and> status r = Waiting
        \<and> maxPlayers (validateSettings raw) < int (length (players r))"
  then show "updateRoomSettings rs pid rid raw = Inl (MaxPlayersBelowCount (length (players r)))"
    by (simp add: updateRoomSettings_too_small)
next
  assume a: "rs (normalizeRoomId rid) = Some r \<and> leaveRoom rs pid rid = Inr (Some r2, rs2)"
  then have l: "leaveRoom rs pid rid = Inr (Some r2, rs2)" and r: "rs (normalizeRoomId rid) = Some r"
    by simp_all
  from leaveRoom_result[OF l] r obtain i ow where i: "indexOf (players r) pid = Some i"
    and r2: "r2 = r\<lparr>players := splice1 i (players r), ownerId := ow\<rparr>"
    by (auto split: if_splits)
  from indexOf_Some[OF i] have il: "i < length (players r)" by simp
  then have "length (splice1 i (players r)) = length (players r) - 1" by (rule length_splice1)
  with il show "length (players r2) < length (players r)"
    by (simp add: r2)
qed

definition full_room_events :: "event list" where
  "full_room_events =
     [CreateRoom ''p1'' (JObj [(''maxPlayers'', JNum 2)]) (\<lambda>k. 0), JoinRoom ''p2'' (JStr ''aaaaaa'')]"

lemma full_room_state:
  "run Map.empty full_room_events ''AAAAAA'' =
     Some \<lparr>room_id = ''AAAAAA'', ownerId = ''p1'', players = [''p1'', ''p2''],
           settings = \<lparr>maxPlayers = 2, drawTime = 80, rounds = 3, hints = True, customWords = []\<rparr>,
           status = Waiting, game = None\<rparr>"
  by code_simp

lemma normalize_example: "normalizeRoomId (JStr ''AAAAAA'') = ''AAAAAA''"
  by code_simp

theorem room_capacity_witness:
  "joinRoom (run Map.empty full_room_events) ''p3'' (JStr ''AAAAAA'') = Inl RoomFull
   \<and> map_option (\<lambda>r. int (length (players r)) \<le> maxPlayers (settings r))
        (run Map.empty full_room_events ''AAAAAA'') = Some True"
proof -
  let ?rs = "run Map.empty full_room_events"
  let ?r = "\<lparr>room_id = ''AAAAAA'', ownerId = ''p1'', players = [''p1'', ''p2''],
           settings = \<lparr>maxPlayers = 2, drawTime = 80, rounds = 3, hints = True, customWords = []\<rparr>,
           status = Waiting, game = None\<rparr>"
  have re: "reachable ?rs" by (rule reachable_run) (rule reachable_init)
  have st: "?rs (normalizeRoomId (JStr ''AAAAAA'')) = Some ?r"
    by (simp only: normalize_example full_room_state)
  have hyp: "?rs (normalizeRoomId (JStr ''AAAAAA'')) = Some ?r \<and> status ?r = Waiting
      \<and> ''p3'' \<notin> set (players ?r) \<and> int (length (players ?r)) = maxPlayers (settings ?r)"
    using st by simp
  from room_capacity[where rs = ?rs and rid = "JStr ''AAAAAA''" and r = ?r and pid = "''p3''"] re hyp
  have "joinRoom ?rs ''p3'' (JStr ''AAAAAA'') = Inl RoomFull"
    and "\<forall>code r. ?rs code = Some r \<longrightarrow> int (length (players r)) \<le> maxPlayers (settings r)"
    by blast+
  then show ?thesis using full_room_state by simp
qed

section \<open>The drawer is the member at the drawer index\<close>

definition drawer_ok :: "room \<Rightarrow> bool" where
  "drawer_ok r = (case game r of None \<Rightarrow> True
                  | Some g \<Rightarrow> drawerId g = nth_opt (players r) (drawerIndex g))"

definition lobby_ok :: "room \<Rightarrow> bool" where
  "lobby_ok r = (status r = Waiting \<longrightarrow> game r = None)"

definition room_ok :: "room \<Rightarrow> bool" where
  "room_ok r = (drawer_ok r \<and> lobby_ok r)"

lemma room_ok_transitionPhase: "room_ok r \<Longrightarrow> room_ok (snd (transitionPhase r ph))"
  by (auto simp: room_ok_def drawer_ok_def lobby_ok_def transitionPhase_def hasActiveGame_def
      split: option.splits if_splits)

lemma room_ok_store_word:
  assumes "room_ok r" and "game r = Some g"
  shows "room_ok (snd (store_word r g w))"
proof -
  let ?r1 = "r\<lparr>game := Some (g\<lparr>selectedWord := Some w, maskedWord := Some (maskWord w)\<rparr>)\<rparr>"
  from assms have "room_ok ?r1" by (auto simp: room_ok_def drawer_ok_def lobby_ok_def)
  from room_ok_transitionPhase[OF this, of "phase_name Drawing"] show ?thesis
    by (auto simp: store_word_def Let_def split: prod.splits sum.splits)
qed

lemma room_ok_startRound: "room_ok r \<Longrightarrow> room_ok (snd (startRound r))"
  by (auto simp: room_ok_def drawer_ok_def lobby_ok_def startRound_def hasActiveGame_def Let_def
      split: option.splits if_splits)

lemma room_ok_getNextDrawer:
  "hasActiveGame r = None \<Longrightarrow> room_ok (snd (getNextDrawer r))"
  by (auto simp: room_ok_def drawer_ok_def lobby_ok_def getNextDrawer_def hasActiveGame_def Let_def
      split: option.splits if_splits)

lemma room_ok_progress: "room_ok r \<Longrightarrow> room_ok (snd (progressToNextDrawer r))"
proof (cases "hasActiveGame r")
  case None
  assume "room_ok r"
  from room_ok_startRound[OF room_ok_getNextDrawer[OF None]] None show ?thesis
    by (auto simp: progressToNextDrawer_def getNextDrawer_def hasActiveGame_def Let_def
        split: option.splits prod.splits sum.splits if_splits)
next
  case (Some e)
  assume "room_ok r"
  with Some show ?thesis by (simp add: progressToNextDrawer_def)
qed

lemma room_ok_ops:
  assumes "room_ok r"
  shows "room_ok (snd (startGame r pid))"
    and "room_ok (snd (endRound r))"
    and "room_ok (snd (endGame r))"
    and "room_ok (snd (resetGame r))"
    and "room_ok (snd (selectWord r pid w))"
    and "room_ok (snd (autoSelectWord r ks))"
    and "room_ok (clearWordSelection r)"
    and "room_ok (snd (validateGuess r pid guess))"
    and "room_ok (initializeRoundStartTime r t)"
proof -
  show "room_ok (snd (startGame r pid))"
    using assms
    by (auto simp: room_ok_def drawer_ok_def lobby_ok_def startGame_def initializeGameState_def
        Let_def split: option.splits)
  show "room_ok (snd (endRound r))"
    using assms
    by (auto simp: room_ok_def drawer_ok_def lobby_ok_def endRound_def hasActiveGame_def Let_def
        split: option.splits if_splits)
  show "room_ok (snd (endGame r))"
    using assms
    by (auto simp: room_ok_def drawer_ok_def lobby_ok_def endGame_def hasActiveGame_def
        split: option.splits if_splits)
  show "room_ok (snd (resetGame r))"
    by (auto simp: room_ok_def drawer_ok_def lobby_ok_def resetGame_def)
  show "room_ok (snd (selectWord r pid w))"
    using assms room_ok_store_word[OF assms]
    by (auto simp: selectWord_def Let_def split: option.splits)
  show "room_ok (snd (autoSelectWord r ks))"
    using assms room_ok_store_word[OF assms]
    by (auto simp: autoSelectWord_def Let_def split: option.splits list.splits)
  show "room_ok (clearWordSelection r)"
    using assms
    by (auto simp: room_ok_def drawer_ok_def lobby_ok_def clearWordSelection_def split: option.splits)
  show "room_ok (snd (validateGuess r pid guess))"
    using assms
    by (auto simp: room_ok_def drawer_ok_def lobby_ok_def validateGuess_def hasActiveGame_def Let_def
        split: option.splits sum.splits if_splits)
  show "room_ok (initializeRoundStartTime r t)"
    using assms
    by (auto simp: room_ok_def drawer_ok_def lobby_ok_def initializeRoundStartTime_def
        split: option.splits)
qed

lemma nth_opt_splice1:
  assumes "k < i" and "i < length xs"
  shows "nth_opt (splice1 i xs) k = nth_opt xs k"
  using assms by (simp add: nth_opt_def splice1_def nth_append)

text \<open>
  An event is rotation-safe in a state unless it is a leave, from a room that has a game,
  of a member whose position is the drawer's or before it.
\<close>

definition leave_safe :: "rooms \<Rightarrow> event \<Rightarrow> bool" where
  "leave_safe rs e =
     (case e of
        LeaveRoom pid rid \<Rightarrow>
          (case rs (normalizeRoomId rid) of
             None \<Rightarrow> True
           | Some r \<Rightarrow>
               (case game r of
                  None \<Rightarrow> True
                | Some g \<Rightarrow> (case indexOf (players r) pid of
                               None \<Rightarrow> True
                             | Some i \<Rightarrow> drawerIndex g < i)))
      | _ \<Rightarrow> True)"

definition rooms_ok :: "rooms \<Rightarrow> bool" where
  "rooms_ok rs = (\<forall>code r. rs code = Some r \<longrightarrow> room_ok r)"

lemma rooms_ok_on_room:
  assumes "rooms_ok rs" and "\<And>r. room_ok r \<Longrightarrow> room_ok (f r)"
  shows "rooms_ok (on_room rs code f)"
  using assms by (auto simp: rooms_ok_def on_room_def split: option.splits)

lemma rooms_ok_step:
  assumes "rooms_ok rs" and "leave_safe rs e"
  shows "rooms_ok (step rs e)"
proof (cases e)
  case (CreateRoom pid raw rnd)
  show ?thesis
  proof (cases "createRoom rs rnd pid raw")
    case (Inl a)
    with CreateRoom assms show ?thesis by simp
  next
    case (Inr b)
    then obtain r rs' where b: "createRoom rs rnd pid raw = Inr (r, rs')" by (cases b) auto
    from createRoom_result[OF b] assms CreateRoom b show ?thesis
      by (auto simp: rooms_ok_def room_ok_def drawer_ok_def lobby_ok_def split: if_splits)
  qed
next
  case (JoinRoom pid rid)
  show ?thesis
  proof (cases "joinRoom rs pid rid")
    case (Inl a)
    with JoinRoom assms show ?thesis by simp
  next
    case (Inr b)
    then obtain r' rs' where b: "joinRoom rs pid rid = Inr (r', rs')" by (cases b) auto
    from joinRoom_result[OF b] obtain r where r: "rs (normalizeRoomId rid) = Some r"
      and w: "status r = Waiting" and r': "r' = r\<lparr>players := players r @ [pid]\<rparr>"
      and rs': "rs' = rs(normalizeRoomId rid \<mapsto> r')" by blast
    from assms r have "room_ok r" by (auto simp: rooms_ok_def)
    with w have "room_ok r'" by (auto simp: r' room_ok_def drawer_ok_def lobby_ok_def)
    with assms JoinRoom b rs' show ?thesis by (auto simp: rooms_ok_def)
  qed
next
  case (LeaveRoom pid rid)
  show ?thesis
  proof (cases "leaveRoom rs pid rid")
    case (Inl a)
    with LeaveRoom assms show ?thesis by simp
  next
    case (Inr b)
    then obtain ro rs' where b: "leaveRoom rs pid rid = Inr (ro, rs')" by (cases b) auto
    from leaveRoom_result[OF b] obtain r i where
      r: "rs (normalizeRoomId rid) = Some r" and i: "indexOf (players r) pid = Some i"
      and c: "if length (players r) = 1 then ro = None \<and> rs' = rs(normalizeRoomId rid := None)
                else \<exists>ow. ro = Some (r\<lparr>players := splice1 i (players r), ownerId := ow\<rparr>)
                         \<and> rs' = rs(normalizeRoomId rid \<mapsto> r\<lparr>players := splice1 i (players r), ownerId := ow\<rparr>)"
      by blast
    from assms r have ok: "room_ok r" by (auto simp: rooms_ok_def)
    have "room_ok (r\<lparr>players := splice1 i (players r), ownerId := ow\<rparr>)" for ow
    proof (cases "game r")
      case None
      with ok show ?thesis by (auto simp: room_ok_def drawer_ok_def lobby_ok_def)
    next
      case (Some g)
      with assms(2) LeaveRoom r i have "drawerIndex g < i" by (simp add: leave_safe_def)
      moreover from indexOf_Some[OF i] have "i < length (players r)" by simp
      ultimately have "nth_opt (splice1 i (players r)) (drawerIndex g)
                         = nth_opt (players r) (drawerIndex g)"
        by (rule nth_opt_splice1)
      with ok Some show ?thesis
        by (auto simp: room_ok_def drawer_ok_def lobby_ok_def)
    qed
    with assms c have "rooms_ok rs'" by (auto simp: rooms_ok_def split: if_splits)
    with LeaveRoom b show ?thesis by simp
  qed
next
  case (UpdateRoomSettings pid rid raw)
  show ?thesis
  proof (cases "updateRoomSettings rs pid rid raw")
    case (Inl a)
    with UpdateRoomSettings assms show ?thesis by simp
  next
    case (Inr b)
    then obtain st rs' where b: "updateRoomSettings rs pid rid raw = Inr (st, rs')" by (cases b) auto
    from updateRoomSettings_result[OF b] obtain r where r: "rs (normalizeRoomId rid) = Some r"
      and rs': "rs' = rs(normalizeRoomId rid \<mapsto> r\<lparr>settings := st\<rparr>)" by blast
    from assms r have "room_ok r" by (auto simp: rooms_ok_def)
    then have "room_ok (r\<lparr>settings := st\<rparr>)"
      by (auto simp: room_ok_def drawer_ok_def lobby_ok_def split: option.splits)
    with assms UpdateRoomSettings b rs' show ?thesis by (auto simp: rooms_ok_def)
  qed
qed (use assms in \<open>simp_all add: rooms_ok_on_room room_ok_ops room_ok_startRound
      room_ok_transitionPhase room_ok_progress\<close>)

inductive reachable_stable :: "rooms \<Rightarrow> bool" where
  stable_init: "reachable_stable Map.empty"
| stable_step: "reachable_stable rs \<Longrightarrow> leave_safe rs e \<Longrightarrow> reachable_stable (step rs e)"

fun safe_run :: "rooms \<Rightarrow> event list \<Rightarrow> bool" where
  "safe_run rs [] = True"
| "safe_run rs (e # es) = (leave_safe rs e \<and> safe_run (step rs e) es)"

lemma reachable_stable_run:
  "reachable_stable rs \<Longrightarrow> safe_run rs es \<Longrightarrow> reachable_stable (run rs es)"
  unfolding run_def by (induction es arbitrary: rs) (auto intro: stable_step)

lemma reachable_stable_ok: "reachable_stable rs \<Longrightarrow> rooms_ok rs"
  by (induction rule: reachable_stable.induct) (simp_all add: rooms_ok_def rooms_ok_step[unfolded rooms_ok_def])

text \<open>
  C4 (as amended). In every state reached by runs in which no member at or before the
  drawer position leaves a room that has a game, every room with a game has
  \<open>drawerId = players[drawerIndex]\<close>: \<open>startGame\<close> and \<open>progressToNextDrawer\<close> establish
  it, and the other game, word, guess and room operations, and leaves of members after
  the drawer position, preserve it.
\<close>

theorem drawer_invariant:
  assumes "reachable_stable rs" and "rs code = Some r" and "game r = Some g"
  shows "drawerId g = nth_opt (players r) (drawerIndex g)"
proof -
  from reachable_stable_ok[OF assms(1)] assms(2) have "room_ok r"
    by (simp add: rooms_ok_def)
  with assms(3) show ?thesis by (simp add: room_ok_def drawer_ok_def)
qed

definition rotation_events :: "event list" where
  "rotation_events =
     [CreateRoom ''p1'' JNull (\<lambda>k. 0), JoinRoom ''p2'' (JStr ''aaaaaa''),
      JoinRoom ''p3'' (JStr ''AAAAAA''), StartGame ''AAAAAA'' ''p1'',
      ProgressToNextDrawer ''AAAAAA'', LeaveRoom ''p3'' (JStr ''AAAAAA'')]"

definition early_leave_events :: "event list" where
  "early_leave_events =
     [CreateRoom ''p1'' JNull (\<lambda>k. 0), JoinRoom ''p2'' (JStr ''aaaaaa''),
      JoinRoom ''p3'' (JStr ''AAAAAA''), StartGame ''AAAAAA'' ''p1'',
      LeaveRoom ''p1'' (JStr ''AAAAAA'')]"


lemma rotation_events_safe: "safe_run Map.empty rotation_events"
  by code_simp

theorem drawer_invariant_witness:
  "map_option drawer_ok (run Map.empty rotation_events ''AAAAAA'') = Some True"
proof -
  let ?rs = "run Map.empty rotation_events"
  have st: "reachable_stable ?rs"
    by (rule reachable_stable_run[OF stable_init rotation_events_safe])
  have "map_option (\<lambda>r. game r \<noteq> None) (?rs ''AAAAAA'') = Some True"
    by code_simp
  then obtain r g where r: "?rs ''AAAAAA'' = Some r" and g: "game r = Some g"
    by (cases "?rs ''AAAAAA''") auto
  from drawer_invariant[OF st r g] have "drawer_ok r"
    by (simp add: drawer_ok_def g)
  with r show ?thesis by simp
qed

text \<open>
  C4 (as stated) fails for \<open>leaveRoom\<close>: when the first drawer leaves a started game, the
  room keeps \<open>drawerIndex = 0\<close> and the id of the member who left, while position 0 now
  holds the next member.
\<close>

theorem drawer_leave_counterexample:
  "map_option drawer_ok (run Map.empty (butlast early_leave_events) ''AAAAAA'') = Some True
   \<and> map_option drawer_ok (run Map.empty early_leave_events ''AAAAAA'') = Some False"
  by code_simp


section \<open>Drawer rotation\<close>

text \<open>
  C5. For every room with an active game, \<open>progressToNextDrawer\<close> succeeds; the new
  drawer index is the old one plus 1, or 0 when that reaches the number of players, in
  which case \<open>currentRound\<close> grows by 1 and \<open>roundIncremented\<close> (and \<open>roundChanged\<close>) is
  true; \<open>drawerId\<close> becomes the player at the new index; and, \<open>startRound\<close> having run,
  \<open>guessedPlayers\<close> is empty and the phase is \<open>word_select\<close>. Nothing else changes.
\<close>

theorem progressToNextDrawer_rotates:
  assumes "hasActiveGame r = None" and "game r = Some g"
    and "w = (length (players r) \<le> drawerIndex g + 1)"
    and "i = (if w then 0 else drawerIndex g + 1)"
  shows "progressToNextDrawer r =
           (Inr \<lparr>drawerInfo = \<lparr>info_drawerId = nth_opt (players r) i, info_drawerIndex = i,
                                 roundIncremented = w\<rparr>,
                  roundChanged = w\<rparr>,
            r\<lparr>game := Some (g\<lparr>currentRound := (if w then currentRound g + 1 else currentRound g),
                               drawerIndex := i,
                               drawerId := nth_opt (players r) i,
                               guessedPlayers := [],
                               phase := WordSelect\<rparr>)\<rparr>)"
  using assms
  by (auto simp: progressToNextDrawer_def getNextDrawer_def startRound_def hasActiveGame_def
      Let_def split: if_splits)

definition guess_events :: "event list" where
  "guess_events =
     [CreateRoom ''p1'' JNull (\<lambda>k. 0), JoinRoom ''p2'' (JStr ''aaaaaa''),
      StartGame ''AAAAAA'' ''p1'', InitializeRoundStartTime ''AAAAAA'' 1000,
      SelectWord ''AAAAAA'' ''p1'' (JStr ''Cat''),
      ValidateGuess ''AAAAAA'' ''p2'' ''cat '']"

text \<open>The room after \<open>guess_events\<close>: player 2 has guessed the word of player 1.\<close>

definition guessed_room :: room where
  "guessed_room =
     \<lparr>room_id = ''AAAAAA'', ownerId = ''p1'', players = [''p1'', ''p2''],
      settings = DEFAULT_SETTINGS, status = InGame,
      game = Some \<lparr>phase = Drawing, currentRound = 1, totalRounds = 3, drawerIndex = 0,
                   drawerId = Some ''p1'', guessedPlayers = [''p2''],
                   roundStartTime = Some 1000, selectedWord = Some ''cat'',
                   maskedWord = Some ''_ _ _''\<rparr>\<rparr>"

lemma guess_events_room: "run Map.empty guess_events ''AAAAAA'' = Some guessed_room"
  by code_simp

text \<open>The room two steps later: the round has ended and player 2 is the drawer.\<close>

definition second_turn_room :: room where
  "second_turn_room =
     \<lparr>room_id = ''AAAAAA'', ownerId = ''p1'', players = [''p1'', ''p2''],
      settings = DEFAULT_SETTINGS, status = InGame,
      game = Some \<lparr>phase = WordSelect, currentRound = 1, totalRounds = 3, drawerIndex = 1,
                   drawerId = Some ''p2'', guessedPlayers = [],
                   roundStartTime = Some 1000, selectedWord = Some ''cat'',
                   maskedWord = Some ''_ _ _''\<rparr>\<rparr>"

lemma second_turn_events_room:
  "run Map.empty (guess_events @ [EndRound ''AAAAAA'', ProgressToNextDrawer ''AAAAAA'']) ''AAAAAA''
     = Some second_turn_room"
  by code_simp

theorem progressToNextDrawer_rotates_witness:
  "progressToNextDrawer second_turn_room =
     (Inr \<lparr>drawerInfo = \<lparr>info_drawerId = Some ''p1'', info_drawerIndex = 0, roundIncremented = True\<rparr>,
           roundChanged = True\<rparr>,
      second_turn_room\<lparr>game := Some \<lparr>phase = WordSelect, currentRound = 2, totalRounds = 3,
                   drawerIndex = 0, drawerId = Some ''p1'', guessedPlayers = [],
                   roundStartTime = Some 1000, selectedWord = Some ''cat'',
                   maskedWord = Some ''_ _ _''\<rparr>\<rparr>)"
proof -
  let ?g = "\<lparr>phase = WordSelect, currentRound = 1, totalRounds = 3, drawerIndex = 1,
                   drawerId = Some ''p2'', guessedPlayers = [],
                   roundStartTime = Some 1000, selectedWord = Some ''cat'',
                   maskedWord = Some ''_ _ _''\<rparr>"
  have a: "hasActiveGame second_turn_room = None"
    by (simp add: hasActiveGame_def second_turn_room_def)
  have g: "game second_turn_room = Some ?g" by (simp add: second_turn_room_def)
  have p: "players second_turn_room = [''p1'', ''p2'']" by (simp add: second_turn_room_def)
  have w: "True = (length (players second_turn_room) \<le> drawerIndex ?g + 1)" by (simp add: p)
  have i: "0 = (if True then 0 else drawerIndex ?g + 1)" by simp
  from progressToNextDrawer_rotates[OF a g w i] show ?thesis
    by (simp add: p nth_opt_def)
qed

section \<open>A second guess\<close>

lemma validateGuess_failure_unchanged:
  assumes "fst (validateGuess r p guess) = Inl e"
  shows "snd (validateGuess r p guess) = r"
proof (cases "hasActiveGame r")
  case (Some e')
  then show ?thesis by (simp add: validateGuess_def)
next
  case None
  note active = None
  show ?thesis
  proof (cases "game r")
    case None
    with active show ?thesis by (simp add: validateGuess_def)
  next
    case (Some g)
    show ?thesis
    proof (cases "phase g \<noteq> Drawing \<or> isCurrentDrawer r p \<or> p \<in> set (guessedPlayers g)")
      case True
      with active Some show ?thesis by (auto simp: validateGuess_def)
    next
      case False
      note open_guess = False
      show ?thesis
      proof (cases "validateGuessFormat guess")
        case (Inl a)
        with active Some open_guess show ?thesis by (simp add: validateGuess_def)
      next
        case (Inr n)
        show ?thesis
        proof (cases "getSelectedWord r")
          case None
          with active Some open_guess Inr show ?thesis by (simp add: validateGuess_def)
        next
          case (Some w)
          with active \<open>game r = Some g\<close> open_guess Inr assms show ?thesis
            by (simp add: validateGuess_def Let_def split: if_splits)
        qed
      qed
    qed
  qed
qed

text \<open>
  In a room with a game, no player who has guessed is the drawer, and the room is in game
  unless the game has ended.
\<close>

definition guess_ok :: "room \<Rightarrow> bool" where
  "guess_ok r =
     (case game r of
        None \<Rightarrow> True
      | Some g \<Rightarrow> (\<forall>p \<in> set (guessedPlayers g). drawerId g \<noteq> Some p)
                  \<and> (status r = InGame \<or> (status r = Finished \<and> phase g = GameEnd)))"

lemma guess_ok_transitionPhase: "guess_ok r \<Longrightarrow> guess_ok (snd (transitionPhase r ph))"
  by (auto simp: guess_ok_def transitionPhase_def hasActiveGame_def split: option.splits if_splits)

lemma guess_ok_store_word:
  assumes "guess_ok r" and "game r = Some g"
  shows "guess_ok (snd (store_word r g w))"
proof -
  let ?r1 = "r\<lparr>game := Some (g\<lparr>selectedWord := Some w, maskedWord := Some (maskWord w)\<rparr>)\<rparr>"
  from assms have "guess_ok ?r1" by (auto simp: guess_ok_def)
  from guess_ok_transitionPhase[OF this, of "phase_name Drawing"] show ?thesis
    by (auto simp: store_word_def Let_def split: prod.splits sum.splits)
qed

lemma guess_ok_startRound: "guess_ok r \<Longrightarrow> guess_ok (snd (startRound r))"
  by (auto simp: guess_ok_def startRound_def hasActiveGame_def Let_def split: option.splits if_splits)

lemma guess_ok_progress: "guess_ok r \<Longrightarrow> guess_ok (snd (progressToNextDrawer r))"
  by (auto simp: guess_ok_def progressToNextDrawer_def getNextDrawer_def startRound_def
      hasActiveGame_def Let_def split: option.splits if_splits)

lemma guess_ok_validateGuess:
  assumes "guess_ok r"
  shows "guess_ok (snd (validateGuess r p guess))"
proof (cases "fst (validateGuess r p guess)")
  case (Inl e)
  from validateGuess_failure_unchanged[OF this] assms show ?thesis by simp
next
  case (Inr b)
  show ?thesis
  proof (cases "game r")
    case None
    then show ?thesis using assms by (simp add: validateGuess_def hasActiveGame_def)
  next
    case (Some g)
    have "snd (validateGuess r p guess) = r
          \<or> (\<not> isCurrentDrawer r p
              \<and> snd (validateGuess r p guess) = r\<lparr>game := Some (g\<lparr>guessedPlayers := guessedPlayers g @ [p]\<rparr>)\<rparr>)"
      using Some
      by (simp add: validateGuess_def Let_def split: option.splits sum.splits)
    then show ?thesis
      using assms Some by (auto simp: guess_ok_def isCurrentDrawer_def)
  qed
qed

lemma guess_ok_ops:
  assumes "guess_ok r"
  shows "guess_ok (snd (startGame r pid))"
    and "guess_ok (snd (endRound r))"
    and "guess_ok (snd (endGame r))"
    and "guess_ok (snd (resetGame r))"
    and "guess_ok (snd (selectWord r pid w))"
    and "guess_ok (snd (autoSelectWord r ks))"
    and "guess_ok (clearWordSelection r)"
    and "guess_ok (initializeRoundStartTime r t)"
proof -
  show "guess_ok (snd (startGame r pid))"
    using assms
    by (auto simp: guess_ok_def startGame_def initializeGameState_def Let_def split: option.splits)
  show "guess_ok (snd (endRound r))"
    using assms
    by (auto simp: guess_ok_def endRound_def hasActiveGame_def Let_def split: option.splits if_splits)
  show "guess_ok (snd (endGame r))"
    using assms
    by (auto simp: guess_ok_def endGame_def hasActiveGame_def split: option.splits if_splits)
  show "guess_ok (snd (resetGame r))"
    by (auto simp: guess_ok_def resetGame_def)
  show "guess_ok (snd (selectWord r pid w))"
    using assms guess_ok_store_word[OF assms]
    by (auto simp: selectWord_def Let_def split: option.splits)
  show "guess_ok (snd (autoSelectWord r ks))"
    using assms guess_ok_store_word[OF assms]
    by (auto simp: autoSelectWord_def Let_def split: option.splits list.splits)
  show "guess_ok (clearWordSelection r)"
    using assms by (auto simp: guess_ok_def clearWordSelection_def split: option.splits)
  show "guess_ok (initializeRoundStartTime r t)"
    using assms by (auto simp: guess_ok_def initializeRoundStartTime_def split: option.splits)
qed

definition guesses_ok :: "rooms \<Rightarrow> bool" where
  "guesses_ok rs = (\<forall>code r. rs code = Some r \<longrightarrow> guess_ok r)"

lemma guesses_ok_on_room:
  assumes "guesses_ok rs" and "\<And>r. guess_ok r \<Longrightarrow> guess_ok (f r)"
  shows "guesses_ok (on_room rs code f)"
  using assms by (auto simp: guesses_ok_def on_room_def split: option.splits)

lemma guess_ok_lobby_change:
  "guess_ok r \<Longrightarrow> guess_ok (r\<lparr>players := ps, ownerId := ow\<rparr>)"
  "guess_ok r \<Longrightarrow> guess_ok (r\<lparr>players := ps\<rparr>)"
  "guess_ok r \<Longrightarrow> guess_ok (r\<lparr>settings := st\<rparr>)"
  by (auto simp: guess_ok_def split: option.splits)

lemma guesses_ok_step:
  assumes "guesses_ok rs"
  shows "guesses_ok (step rs e)"
proof (cases e)
  case (CreateRoom pid raw rnd)
  show ?thesis
  proof (cases "createRoom rs rnd pid raw")
    case (Inl a)
    with CreateRoom assms show ?thesis by simp
  next
    case (Inr b)
    then obtain r rs' where b: "createRoom rs rnd pid raw = Inr (r, rs')" by (cases b) auto
    from createRoom_result[OF b] assms CreateRoom b show ?thesis
      by (auto simp: guesses_ok_def guess_ok_def split: if_splits)
  qed
next
  case (JoinRoom pid rid)
  show ?thesis
  proof (cases "joinRoom rs pid rid")
    case (Inl a)
    with JoinRoom assms show ?thesis by simp
  next
    case (Inr b)
    then obtain r' rs' where b: "joinRoom rs pid rid = Inr (r', rs')" by (cases b) auto
    from joinRoom_result[OF b] obtain r where r: "rs (normalizeRoomId rid) = Some r"
      and r': "r' = r\<lparr>players := players r @ [pid]\<rparr>"
      and rs': "rs' = rs(normalizeRoomId rid \<mapsto> r')" by blast
    from assms r have "guess_ok r" by (auto simp: guesses_ok_def)
    then have "guess_ok r'" unfolding r' by (rule guess_ok_lobby_change)
    with assms JoinRoom b rs' show ?thesis by (auto simp: guesses_ok_def)
  qed
next
  case (LeaveRoom pid rid)
  show ?thesis
  proof (cases "leaveRoom rs pid rid")
    case (Inl a)
    with LeaveRoom assms show ?thesis by simp
  next
    case (Inr b)
    then obtain ro rs' where b: "leaveRoom rs pid rid = Inr (ro, rs')" by (cases b) auto
    from leaveRoom_result[OF b] obtain r i where
      r: "rs (normalizeRoomId rid) = Some r"
      and c: "if length (players r) = 1 then ro = None \<and> rs' = rs(normalizeRoomId rid := None)
                else \<exists>ow. ro = Some (r\<lparr>players := splice1 i (players r), ownerId := ow\<rparr>)
                         \<and> rs' = rs(normalizeRoomId rid \<mapsto> r\<lparr>players := splice1 i (players r), ownerId := ow\<rparr>)"
      by blast
    from assms r have "guess_ok r" by (auto simp: guesses_ok_def)
    then have "guess_ok (r\<lparr>players := splice1 i (players r), ownerId := ow\<rparr>)" for ow
      by (rule guess_ok_lobby_change)
    with assms c have "guesses_ok rs'" by (auto simp: guesses_ok_def split: if_splits)
    with LeaveRoom b show ?thesis by simp
  qed
next
  case (UpdateRoomSettings pid rid raw)
  show ?thesis
  proof (cases "updateRoomSettings rs pid rid raw")
    case (Inl a)
    with UpdateRoomSettings assms show ?thesis by simp
  next
    case (Inr b)
    then obtain st rs' where b: "updateRoomSettings rs pid rid raw = Inr (st, rs')" by (cases b) auto
    from updateRoomSettings_result[OF b] obtain r where r: "rs (normalizeRoomId rid) = Some r"
      and rs': "rs' = rs(normalizeRoomId rid \<mapsto> r\<lparr>settings := st\<rparr>)" by blast
    from assms r have "guess_ok r" by (auto simp: guesses_ok_def)
    then have "guess_ok (r\<lparr>settings := st\<rparr>)" by (rule guess_ok_lobby_change)
    with assms UpdateRoomSettings b rs' show ?thesis by (auto simp: guesses_ok_def)
  qed
qed (use assms in \<open>simp_all add: guesses_ok_on_room guess_ok_ops guess_ok_startRound
      guess_ok_transitionPhase guess_ok_progress guess_ok_validateGuess\<close>)

lemma reachable_guesses_ok: "reachable rs \<Longrightarrow> guesses_ok rs"
  by (induction rule: reachable.induct)
     (simp_all add: guesses_ok_def guesses_ok_step[unfolded guesses_ok_def])

text \<open>
  A room of three: player 2 has guessed the word of player 1, player 3 has not, so the
  round goes on.
\<close>

definition pending_events :: "event list" where
  "pending_events =
     [CreateRoom ''p1'' JNull (\<lambda>k. 0), JoinRoom ''p2'' (JStr ''aaaaaa''),
      JoinRoom ''p3'' (JStr ''aaaaaa''),
      StartGame ''AAAAAA'' ''p1'', InitializeRoundStartTime ''AAAAAA'' 1000,
      SelectWord ''AAAAAA'' ''p1'' (JStr ''Cat''),
      ValidateGuess ''AAAAAA'' ''p2'' ''cat '']"

definition pending_room :: room where
  "pending_room =
     \<lparr>room_id = ''AAAAAA'', ownerId = ''p1'', players = [''p1'', ''p2'', ''p3''],
      settings = DEFAULT_SETTINGS, status = InGame,
      game = Some \<lparr>phase = Drawing, currentRound = 1, totalRounds = 3, drawerIndex = 0,
                   drawerId = Some ''p1'', guessedPlayers = [''p2''],
                   roundStartTime = Some 1000, selectedWord = Some ''cat'',
                   maskedWord = Some ''_ _ _''\<rparr>\<rparr>"

lemma pending_events_room: "run Map.empty pending_events ''AAAAAA'' = Some pending_room"
  by code_simp

text \<open>
  The room of two after \<open>endRound\<close> has closed the round, and the same room once the
  router has cleared the word, as it stays for the three seconds before the next drawer
  is called: the round number, the drawer and \<open>guessedPlayers\<close> are those of the round.
\<close>

definition round_over_room :: room where
  "round_over_room =
     \<lparr>room_id = ''AAAAAA'', ownerId = ''p1'', players = [''p1'', ''p2''],
      settings = DEFAULT_SETTINGS, status = InGame,
      game = Some \<lparr>phase = RoundEnd, currentRound = 1, totalRounds = 3, drawerIndex = 0,
                   drawerId = Some ''p1'', guessedPlayers = [''p2''],
                   roundStartTime = Some 1000, selectedWord = Some ''cat'',
                   maskedWord = Some ''_ _ _''\<rparr>\<rparr>"

definition round_over_events :: "event list" where
  "round_over_events = guess_events @ [EndRound ''AAAAAA'']"

lemma round_over_events_room: "run Map.empty round_over_events ''AAAAAA'' = Some round_over_room"
  by code_simp

text \<open>
  C6 (as amended). In every reachable state, for every room with a game and every player
  whose id is already in \<open>guessedPlayers\<close>, a further guess of that player fails, and the
  failing call leaves the room as it was: \<open>guessedPlayers\<close> and all other game state are
  unchanged, and no score is touched, since scores are out of the reach of
  \<open>validateGuess\<close>. The error is 'You have already guessed correctly' while the round is
  in its drawing phase, 'Guessing is only allowed during drawing phase' once the round has
  left it, and 'Game is not active' once the game has ended.
\<close>

theorem second_guess_rejected:
  assumes "reachable rs" and "rs code = Some r" and "game r = Some g"
    and "p \<in> set (guessedPlayers g)"
  shows "validateGuess r p guess =
           (Inl (if status r \<noteq> InGame then GameNotActive
                 else if phase g = Drawing then AlreadyGuessed
                 else WrongPhaseForGuess), r)"
proof -
  from reachable_guesses_ok[OF assms(1)] assms(2) have "guess_ok r"
    by (simp add: guesses_ok_def)
  with assms(3,4) have "drawerId g \<noteq> Some p"
    by (auto simp: guess_ok_def)
  with assms(3,4) show ?thesis
    by (simp add: validateGuess_def hasActiveGame_def isCurrentDrawer_def)
qed

theorem second_guess_rejected_witness:
  "validateGuess pending_room ''p2'' ''cat'' = (Inl AlreadyGuessed, pending_room)
   \<and> allGuessersGuessed pending_room = False
   \<and> validateGuess round_over_room ''p2'' ''cat'' = (Inl WrongPhaseForGuess, round_over_room)"
proof -
  let ?g = "\<lparr>phase = Drawing, currentRound = 1, totalRounds = 3, drawerIndex = 0,
                   drawerId = Some ''p1'', guessedPlayers = [''p2''],
                   roundStartTime = Some 1000, selectedWord = Some ''cat'',
                   maskedWord = Some ''_ _ _''\<rparr>"
  let ?h = "\<lparr>phase = RoundEnd, currentRound = 1, totalRounds = 3, drawerIndex = 0,
                   drawerId = Some ''p1'', guessedPlayers = [''p2''],
                   roundStartTime = Some 1000, selectedWord = Some ''cat'',
                   maskedWord = Some ''_ _ _''\<rparr>"
  have re: "reachable (run Map.empty pending_events)"
    by (rule reachable_run) (rule reachable_init)
  have g: "game pending_room = Some ?g" by (simp add: pending_room_def)
  have mem: "''p2'' \<in> set (guessedPlayers ?g)" by simp
  have st: "status pending_room = InGame" by (simp add: pending_room_def)
  have 1: "validateGuess pending_room ''p2'' ''cat'' = (Inl AlreadyGuessed, pending_room)"
    using second_guess_rejected[OF re pending_events_room g mem, of "''cat''"] st by simp
  have re': "reachable (run Map.empty round_over_events)"
    by (rule reachable_run) (rule reachable_init)
  have h: "game round_over_room = Some ?h" by (simp add: round_over_room_def)
  have mem': "''p2'' \<in> set (guessedPlayers ?h)" by simp
  have st': "status round_over_room = InGame" by (simp add: round_over_room_def)
  have 2: "validateGuess round_over_room ''p2'' ''cat'' = (Inl WrongPhaseForGuess, round_over_room)"
    using second_guess_rejected[OF re' round_over_events_room h mem', of "''cat''"] st' by simp
  have 3: "allGuessersGuessed pending_room = False" by code_simp
  from 1 2 3 show ?thesis by simp
qed

text \<open>
  C6 (as stated) fails once \<open>endRound\<close> has closed the round: the round number and the
  drawer are unchanged and player 2 is still in \<open>guessedPlayers\<close>, but the phase check
  comes first, and the second guess of player 2 is refused with 'Guessing is only allowed
  during drawing phase', not with 'You have already guessed correctly'. The same holds
  after the router has cleared the word.
\<close>

theorem second_guess_round_end_counterexample:
  "run Map.empty (guess_events @ [EndRound ''AAAAAA'']) ''AAAAAA'' = Some round_over_room
   \<and> map_option currentRound (game round_over_room) = map_option currentRound (game guessed_room)
   \<and> map_option drawerId (game round_over_room) = map_option drawerId (game guessed_room)
   \<and> map_option guessedPlayers (game round_over_room) = Some [''p2'']
   \<and> validateGuess round_over_room ''p2'' ''cat'' = (Inl WrongPhaseForGuess, round_over_room)
   \<and> fst (validateGuess (clearWordSelection round_over_room) ''p2'' ''cat'')
       = Inl WrongPhaseForGuess"
  by code_simp

section \<open>The award for a correct guess\<close>

lemma bit_length_pos: "0 < n \<Longrightarrow> 0 < bit_length n"
  by (subst bit_length.simps) simp

lemma ilog2_le_0:
  assumes "0 < x" and "x \<le> 1"
  shows "ilog2 x \<le> 0"
proof (cases "1 \<le> x")
  case True
  with assms have "x = 1" by simp
  moreover have "bit_length 1 = 1"
    by (subst bit_length.simps, subst bit_length.simps) simp
  ultimately show ?thesis by (simp add: ilog2_def)
next
  case False
  then have "1 < 1 / x" using assms by simp
  then have "0 < \<lfloor>1 / x\<rfloor>" by linarith
  from bit_length_pos[OF this] False show ?thesis
    by (simp add: ilog2_def Let_def)
qed

lemma round_half_even_nonneg: "0 \<le> z \<Longrightarrow> 0 \<le> round_half_even z"
  by (auto simp: round_half_even_def Let_def)

lemma round_half_even_le:
  assumes "z \<le> of_int N"
  shows "round_half_even z \<le> N"
proof -
  from assms have f: "\<lfloor>z\<rfloor> \<le> N" by (simp add: floor_le_iff)
  show ?thesis
  proof (cases "\<lfloor>z\<rfloor> = N")
    case True
    with assms have "z - of_int \<lfloor>z\<rfloor> \<le> 0" by simp
    then have "z - of_int \<lfloor>z\<rfloor> < 1 / 2" by linarith
    with True show ?thesis by (simp add: round_half_even_def Let_def)
  next
    case False
    with f have "\<lfloor>z\<rfloor> + 1 \<le> N" by simp
    with f show ?thesis by (auto simp: round_half_even_def Let_def)
  qed
qed

lemma pow2_pos: "0 < pow2 k"
  by (simp add: pow2_def)

lemma fl_nonneg: "0 \<le> x \<Longrightarrow> 0 \<le> fl x"
  using pow2_pos by (auto simp: fl_def Let_def intro!: mult_nonneg_nonneg round_half_even_nonneg
      simp: less_imp_le)

lemma fl_le_1:
  assumes "0 \<le> x" and "x \<le> 1"
  shows "fl x \<le> 1"
proof (cases "x = 0")
  case True
  then show ?thesis by (simp add: fl_def)
next
  case False
  with assms have pos: "0 < x" by simp
  define k where "k = max (ilog2 \<bar>x\<bar>) (- 1022) - 52"
  from ilog2_le_0[OF pos assms(2)] pos have k: "k < 0" by (simp add: k_def)
  define N :: int where "N = 2 ^ nat (- k)"
  from k have p: "pow2 k = 1 / of_int N" by (simp add: pow2_def N_def)
  have Npos: "0 < N" by (simp add: N_def)
  have "x / pow2 k = x * of_int N" by (simp add: p)
  also have "\<dots> \<le> of_int N" using assms(2) Npos by (simp add: mult_le_cancel_right1)
  finally have "round_half_even (x / pow2 k) \<le> N" by (rule round_half_even_le)
  then have "(of_int (round_half_even (x / pow2 k)) :: rat) \<le> of_int N" by (simp only: of_int_le_iff)
  then have "of_int (round_half_even (x / pow2 k)) * pow2 k \<le> 1"
    using Npos by (simp add: p divide_le_eq)
  with False show ?thesis by (simp add: fl_def Let_def k_def)
qed

lemma calc_in_range:
  assumes "0 < D" and "0 \<le> e" and "e \<le> of_int D"
  shows "calculateScore (of_int D) e False = spec_guess_score D e"
proof -
  have Dpos: "(0::rat) < of_int D" using assms(1) by simp
  have r0: "0 \<le> e / of_int D" using assms(2) Dpos by simp
  have r1: "e / of_int D \<le> 1" using assms(3) Dpos by (simp add: divide_le_eq)
  have "0 \<le> fl_div e (of_int D)" and "fl_div e (of_int D) \<le> 1"
    unfolding fl_div_def using r0 r1 by (simp_all add: fl_nonneg fl_le_1)
  then have c: "clamp01 (fl_div e (of_int D)) = fl_div e (of_int D)"
    by (simp add: clamp01_def)
  have guard: "(rat_of_int D \<le> 0 \<or> e < 0 \<or> e > of_int D) = False"
    using assms(2,3) Dpos by auto
  have "calculateScore (of_int D) e False
          = max 10 \<lfloor>fl_add 100 (fl_mul 100 (fl_sub 1 (fl_div e (of_int D))))\<rfloor>"
    by (simp only: calculateScore_def guard if_False Let_def BASE_SCORE_def MAX_TIME_BONUS_def
        MIN_SCORE_def)
  also have "\<dots> = spec_guess_score D e"
    by (simp only: spec_guess_score_def c)
  finally show ?thesis .
qed

lemma calc_out_of_range:
  assumes "e < 0 \<or> of_int D < e"
  shows "calculateScore (of_int D) e False = 10"
  using assms by (auto simp: calculateScore_def MIN_SCORE_def)

text \<open>
  C3 (as amended). For a correct guess that is awarded for the first time in its round,
  at wall time \<open>t\<close> in a room with draw time \<open>D > 0\<close> and round start time \<open>s\<close>, to a
  registered player who is not the drawer, by a call that is given an
  \<open>updatePlayerScore\<close> function: let \<open>elapsed\<close> be \<open>(t - s)/1000\<close> as a double. When
  \<open>0 \<le> elapsed \<le> D\<close> the awarded score is the specified
  \<open>max(10, floor(100 + 100 * (1 - clamp(elapsed/D, 0, 1))))\<close>, each operation being the
  one of doubles; when the guess comes after the deadline (or before the round start) the
  award is the minimum score 10. The total is the player's score plus the award.
\<close>

theorem awardGuessScore_fresh:
  assumes "hasActiveGame r = None" and "game r = Some g"
    and "getGuessTime gt (room_id r) (currentRound g) pid = None"
    and "reg pid = Some p" and "drawerId g \<noteq> Some pid"
    and "roundStartTime g = Some s" and "s \<noteq> 0"
    and "D = drawTime (settings r)" and "0 < D"
  shows "fst (awardGuessScore r pid t now (Some upd) (gt, reg)) =
           Inr \<lparr>award_score =
                  Some (if 0 \<le> elapsed_seconds s t \<and> elapsed_seconds s t \<le> of_int D
                        then spec_guess_score D (elapsed_seconds s t) else 10),
                award_total =
                  (case p_score p of None \<Rightarrow> 0 | Some sc \<Rightarrow> sc)
                  + (if 0 \<le> elapsed_seconds s t \<and> elapsed_seconds s t \<le> of_int D
                     then spec_guess_score D (elapsed_seconds s t) else 10)\<rparr>"
proof -
  define e where "e = elapsed_seconds s t"
  define a where "a = (if 0 \<le> e \<and> e \<le> of_int D then spec_guess_score D e else 10)"
  have c: "calculateScore (of_int D) e False = a"
  proof (cases "0 \<le> e \<and> e \<le> of_int D")
    case True
    have "a = spec_guess_score D e" unfolding a_def by (rule if_P[OF True])
    with calc_in_range[OF assms(9), of e] True show ?thesis by simp
  next
    case False
    have "a = 10" unfolding a_def by (rule if_not_P[OF False])
    moreover from False have "e < 0 \<or> of_int D < e" by auto
    ultimately show ?thesis using calc_out_of_range by simp
  qed
  have d: "isCurrentDrawer r pid = False" using assms(2,5) by (simp add: isCurrentDrawer_def)
  have "fst (awardGuessScore r pid t now (Some upd) (gt, reg)) =
           Inr \<lparr>award_score = Some a,
                award_total = (case p_score p of None \<Rightarrow> 0 | Some sc \<Rightarrow> sc) + a\<rparr>"
    using assms(1-4,6,7) c[unfolded assms(8) e_def elapsed_seconds_def] d
    by (simp add: awardGuessScore_def Let_def)
  then show ?thesis unfolding a_def e_def by simp
qed

text \<open>
  The examples pass this \<open>updatePlayerScore\<close>, which stores the new total in the player
  object.
\<close>

definition store_score :: "player_id \<Rightarrow> int \<Rightarrow> registry \<Rightarrow> registry" where
  "store_score pid newTotal reg =
     (case reg pid of None \<Rightarrow> reg | Some p \<Rightarrow> reg(pid \<mapsto> p\<lparr>p_score := Some newTotal\<rparr>))"

definition p2_registry :: registry where
  "p2_registry = [''p2'' \<mapsto> \<lparr>p_id = ''p2'', p_socketId = ''s2'', p_name = ''Player007'',
                              p_roomId = Some ''AAAAAA'', p_score = None\<rparr>]"

text \<open>
  Ten seconds into an 80-second round the award is 187, at the deadline it is 100, and
  70.4 seconds into the round it is 111, where exact arithmetic gives 112.
\<close>

lemma elapsed_examples:
  "elapsed_seconds 1000 11000 = 10" "elapsed_seconds 1000 81000 = 80"
  "elapsed_seconds 1000 71400 = 2476979795053773 / 35184372088832"
  by code_simp+

lemma spec_guess_score_examples:
  "spec_guess_score 80 10 = 187" "spec_guess_score 80 80 = 100"
  "spec_guess_score 80 (2476979795053773 / 35184372088832) = 111"
  "exact_guess_score 80 1000 71400 = 112"
  by code_simp+

theorem awardGuessScore_fresh_witness:
  "fst (awardGuessScore guessed_room ''p2'' 11000 0 (Some store_score) (Map.empty, p2_registry))
     = Inr \<lparr>award_score = Some 187, award_total = 187\<rparr>
   \<and> fst (awardGuessScore guessed_room ''p2'' 81000 0 (Some store_score) (Map.empty, p2_registry))
     = Inr \<lparr>award_score = Some 100, award_total = 100\<rparr>
   \<and> fst (awardGuessScore guessed_room ''p2'' 71400 0 (Some store_score) (Map.empty, p2_registry))
     = Inr \<lparr>award_score = Some 111, award_total = 111\<rparr>"
proof -
  let ?g = "\<lparr>phase = Drawing, currentRound = 1, totalRounds = 3, drawerIndex = 0,
                   drawerId = Some ''p1'', guessedPlayers = [''p2''],
                   roundStartTime = Some 1000, selectedWord = Some ''cat'',
                   maskedWord = Some ''_ _ _''\<rparr>"
  let ?p = "\<lparr>p_id = ''p2'', p_socketId = ''s2'', p_name = ''Player007'',
                              p_roomId = Some ''AAAAAA'', p_score = None\<rparr>"
  have h1: "hasActiveGame guessed_room = None" by (simp add: hasActiveGame_def guessed_room_def)
  have h2: "game guessed_room = Some ?g" by (simp add: guessed_room_def)
  have h3: "getGuessTime Map.empty (room_id guessed_room) (currentRound ?g) ''p2'' = None"
    by (simp add: getGuessTime_def)
  have h4: "p2_registry ''p2'' = Some ?p" by (simp add: p2_registry_def)
  have h5: "drawerId ?g \<noteq> Some ''p2''" by simp
  have h6: "roundStartTime ?g = Some 1000" by simp
  have h7: "(1000::int) \<noteq> 0" by simp
  have h8: "80 = drawTime (settings guessed_room)" by (simp add: guessed_room_def DEFAULT_SETTINGS_def)
  have h9: "(0::int) < 80" by simp
  note th = awardGuessScore_fresh[where r = guessed_room and g = ?g and gt = Map.empty
      and pid = "''p2''" and reg = p2_registry and p = ?p and s = 1000 and D = 80
      and now = 0 and upd = store_score,
      OF h1 h2 h3 h4 h5 h6 h7 h8 h9]
  have in_round: "(0::rat) \<le> 2476979795053773 / 35184372088832"
    "(2476979795053773 / 35184372088832 :: rat) \<le> 80" by simp_all
  from th[of 11000] th[of 81000] th[of 71400] in_round show ?thesis
    by (simp add: elapsed_examples spec_guess_score_examples)
qed

text \<open>
  C3 (as stated) fails after the deadline: 85 seconds into an 80-second round the
  specified formula, with the ratio clamped to 1, gives 100 (on doubles as in exact
  arithmetic), and the code awards 10.
\<close>

theorem awardGuessScore_late_counterexample:
  "fst (awardGuessScore guessed_room ''p2'' 86000 0 (Some store_score) (Map.empty, p2_registry))
     = Inr \<lparr>award_score = Some 10, award_total = 10\<rparr>
   \<and> spec_guess_score (drawTime (settings guessed_room)) (elapsed_seconds 1000 86000) = 100
   \<and> exact_guess_score (drawTime (settings guessed_room)) 1000 86000 = 100"
  by code_simp

text \<open>
  The event router passes \<open>playerManager.updatePlayerScore\<close>, a name that \<open>players.js\<close>
  does not export: the value is \<open>undefined\<close>, and the award raises once the guess time
  is recorded and the score property initialised.
\<close>

lemma awardGuessScore_undefined_callback:
  "fst (awardGuessScore guessed_room ''p2'' 11000 0 None (Map.empty, p2_registry))
     = Inl (TypeError ''updatePlayerScore is not a function'')
   \<and> getGuessTime
         (fst (snd (awardGuessScore guessed_room ''p2'' 11000 0 None (Map.empty, p2_registry))))
         ''AAAAAA'' 1 ''p2'' = Some 11000
   \<and> map_option p_score
         (snd (snd (awardGuessScore guessed_room ''p2'' 11000 0 None (Map.empty, p2_registry)))
            ''p2'') = Some (Some 0)
   \<and> call_export playerManager_exports ''playerManager'' ''updatePlayerScore''
     = Some (TypeError ''playerManager.updatePlayerScore is not a function'')"
  by code_simp

section \<open>What a room serialization contains\<close>

text \<open>Two connected players who share room \<open>AAAAAA\<close>, as the registry holds them.\<close>

definition lobby_server :: server where
  "lobby_server =
     (let s0 = \<lparr>by_socket = Map.empty, by_id = Map.empty, room_map = Map.empty\<rparr>;
          s1 = snd (createPlayer s0 ''s1'' ''p1'' 42);
          s2 = snd (createPlayer s1 ''s2'' ''p2'' 7);
          s3 = s2\<lparr>room_map := run Map.empty
                   [CreateRoom ''p1'' JNull (\<lambda>k. 0), JoinRoom ''p2'' (JStr ''aaaaaa'')]\<rparr>;
          s4 = updatePlayerRoom s3 ''p1'' (Some ''AAAAAA'')
      in updatePlayerRoom s4 ''p2'' (Some ''AAAAAA''))"

lemma all_keys_settings_json:
  "set (all_keys (settings_json st)) = {''maxPlayers'', ''drawTime'', ''rounds'', ''hints'', ''customWords''}"
proof -
  have "concat (map all_keys (map JStr ws)) = []" for ws
    by (induction ws) simp_all
  then show ?thesis by (auto simp: settings_json_def)
qed

lemma serializeRoom_players:
  "js_get (serializeRoom r gp) ''players'' =
     JArr (map (\<lambda>p. JObj [(''id'', JStr (p_id p)), (''name'', JStr (p_name p)),
                           (''isOwner'', JBool (p_id p = ownerId r))])
            (map the (filter (\<lambda>p. p \<noteq> None) (map gp (players r)))))"
  by (simp add: serializeRoom_def)

lemma registered_members:
  assumes "\<forall>pid \<in> set ps. \<exists>p. gp pid = Some p \<and> p_id p = pid"
  shows "map p_id (map the (filter (\<lambda>p. p \<noteq> None) (map gp ps))) = ps"
  using assms by (induction ps) auto

text \<open>The elements of an array value.\<close>

fun arr_items :: "jsval \<Rightarrow> jsval list" where
  "arr_items (JArr vs) = vs"
| "arr_items _ = []"

text \<open>
  The room with the selected word of its game, if it has one, replaced by \<open>w\<close>.
\<close>

definition with_selectedWord :: "room \<Rightarrow> string option \<Rightarrow> room" where
  "with_selectedWord r w = r\<lparr>game := map_option (\<lambda>g. g\<lparr>selectedWord := w\<rparr>) (game r)\<rparr>"

lemma serializeRoom_with_selectedWord:
  "serializeRoom (with_selectedWord r w) gp = serializeRoom r gp"
  by (simp add: serializeRoom_def with_selectedWord_def)

lemma serializeGameState_with_selectedWord:
  "serializeGameState (with_selectedWord r w) = serializeGameState r"
  by (cases "game r") (simp_all add: serializeGameState_def with_selectedWord_def)

lemma entries_of_registered:
  assumes "\<forall>pid \<in> set ps. \<exists>p. gp pid = Some p \<and> p_id p = pid"
  shows "map f (map the (filter (\<lambda>p. p \<noteq> None) (map gp ps))) = map (\<lambda>pid. f (the (gp pid))) ps"
  using assms by (induction ps) auto

text \<open>
  C2 (as amended). For every room, the serialization is the object with exactly the keys
  \<open>id\<close>, \<open>ownerId\<close>, \<open>players\<close>, \<open>settings\<close>, \<open>status\<close>, holding the room's id, owner,
  settings and status; \<open>players\<close> is an array, and when every member has a player object
  in the registry it has one entry per member, in membership order, whose \<open>id\<close>, \<open>name\<close>
  and \<open>isOwner\<close> are the member's id, the member's name and whether the member owns the
  room. The selected word is part of no serialization: the room serialization and the
  game-state serialization are the same whatever the selected word is (the masked word is
  a field of its own), and no property named \<open>selectedWord\<close> occurs anywhere in either.
\<close>

theorem serializeRoom_shape:
  "obj_keys (serializeRoom r gp) = [''id'', ''ownerId'', ''players'', ''settings'', ''status'']
   \<and> js_get (serializeRoom r gp) ''id'' = JStr (room_id r)
   \<and> js_get (serializeRoom r gp) ''ownerId'' = JStr (ownerId r)
   \<and> js_get (serializeRoom r gp) ''settings'' = settings_json (settings r)
   \<and> js_get (serializeRoom r gp) ''status'' = JStr (status_name (status r))
   \<and> (\<exists>es. js_get (serializeRoom r gp) ''players'' = JArr es
         \<and> ((\<forall>pid \<in> set (players r). \<exists>p. gp pid = Some p \<and> p_id p = pid)
              \<longrightarrow> map (\<lambda>e. js_get e ''id'') es = map JStr (players r)
                \<and> map (\<lambda>e. js_get e ''name'') es
                    = map (\<lambda>pid. JStr (p_name (the (gp pid)))) (players r)
                \<and> map (\<lambda>e. js_get e ''isOwner'') es
                    = map (\<lambda>pid. JBool (pid = ownerId r)) (players r)))
   \<and> serializeRoom (with_selectedWord r w) gp = serializeRoom r gp
   \<and> serializeGameState (with_selectedWord r w) = serializeGameState r
   \<and> ''selectedWord'' \<notin> set (all_keys (serializeRoom r gp))
   \<and> ''selectedWord'' \<notin> set (all_keys (serializeGameState r))"
proof (intro conjI)
  let ?ps = "map the (filter (\<lambda>p. p \<noteq> None) (map gp (players r)))"
  let ?entry = "\<lambda>p. JObj [(''id'', JStr (p_id p)), (''name'', JStr (p_name p)),
                           (''isOwner'', JBool (p_id p = ownerId r))]"
  show "obj_keys (serializeRoom r gp) = [''id'', ''ownerId'', ''players'', ''settings'', ''status'']"
    by (simp add: serializeRoom_def)
  show "js_get (serializeRoom r gp) ''id'' = JStr (room_id r)"
    and "js_get (serializeRoom r gp) ''ownerId'' = JStr (ownerId r)"
    and "js_get (serializeRoom r gp) ''settings'' = settings_json (settings r)"
    and "js_get (serializeRoom r gp) ''status'' = JStr (status_name (status r))"
    by (simp_all add: serializeRoom_def)
  show "\<exists>es. js_get (serializeRoom r gp) ''players'' = JArr es
         \<and> ((\<forall>pid \<in> set (players r). \<exists>p. gp pid = Some p \<and> p_id p = pid)
              \<longrightarrow> map (\<lambda>e. js_get e ''id'') es = map JStr (players r)
                \<and> map (\<lambda>e. js_get e ''name'') es
                    = map (\<lambda>pid. JStr (p_name (the (gp pid)))) (players r)
                \<and> map (\<lambda>e. js_get e ''isOwner'') es
                    = map (\<lambda>pid. JBool (pid = ownerId r)) (players r))"
  proof (intro exI conjI impI)
    show "js_get (serializeRoom r gp) ''players'' = JArr (map ?entry ?ps)"
      by (rule serializeRoom_players)
    assume reg: "\<forall>pid \<in> set (players r). \<exists>p. gp pid = Some p \<and> p_id p = pid"
    have ids: "\<forall>pid \<in> set (players r). p_id (the (gp pid)) = pid"
      using reg by auto
    have "map (\<lambda>e. js_get e ''id'') (map ?entry ?ps) = map (\<lambda>p. JStr (p_id p)) ?ps"
      by (simp add: comp_def)
    also have "\<dots> = map (\<lambda>pid. JStr (p_id (the (gp pid)))) (players r)"
      by (rule entries_of_registered[OF reg])
    also have "\<dots> = map JStr (players r)"
      using ids by (simp cong: map_cong)
    finally show "map (\<lambda>e. js_get e ''id'') (map ?entry ?ps) = map JStr (players r)" .
    have "map (\<lambda>e. js_get e ''name'') (map ?entry ?ps) = map (\<lambda>p. JStr (p_name p)) ?ps"
      by (simp add: comp_def)
    also have "\<dots> = map (\<lambda>pid. JStr (p_name (the (gp pid)))) (players r)"
      by (rule entries_of_registered[OF reg])
    finally show "map (\<lambda>e. js_get e ''name'') (map ?entry ?ps)
                    = map (\<lambda>pid. JStr (p_name (the (gp pid)))) (players r)" .
    have "map (\<lambda>e. js_get e ''isOwner'') (map ?entry ?ps)
            = map (\<lambda>p. JBool (p_id p = ownerId r)) ?ps"
      by (simp add: comp_def)
    also have "\<dots> = map (\<lambda>pid. JBool (p_id (the (gp pid)) = ownerId r)) (players r)"
      by (rule entries_of_registered[OF reg])
    also have "\<dots> = map (\<lambda>pid. JBool (pid = ownerId r)) (players r)"
      using ids by (simp cong: map_cong)
    finally show "map (\<lambda>e. js_get e ''isOwner'') (map ?entry ?ps)
                    = map (\<lambda>pid. JBool (pid = ownerId r)) (players r)" .
  qed
  show "serializeRoom (with_selectedWord r w) gp = serializeRoom r gp"
    by (rule serializeRoom_with_selectedWord)
  show "serializeGameState (with_selectedWord r w) = serializeGameState r"
    by (rule serializeGameState_with_selectedWord)
  have sub: "set (concat (map all_keys (map ?entry qs))) \<subseteq> {''id'', ''name'', ''isOwner''}" for qs
    by (induction qs) simp_all
  have "''selectedWord'' \<notin> {''id'', ''name'', ''isOwner''}" by simp
  with sub[of ?ps] have "''selectedWord'' \<notin> set (concat (map all_keys (map ?entry ?ps)))"
    by blast
  then show "''selectedWord'' \<notin> set (all_keys (serializeRoom r gp))"
    using all_keys_settings_json[of "settings r"]
    by (simp add: serializeRoom_def Let_def)
  have "concat (map all_keys (map JStr ws)) = []" for ws
    by (induction ws) simp_all
  then show "''selectedWord'' \<notin> set (all_keys (serializeGameState r))"
    by (simp add: serializeGameState_def split: option.splits)
qed

lemma lobby_members_registered:
  "\<forall>pid \<in> set (players guessed_room). \<exists>p. by_id lobby_server pid = Some p \<and> p_id p = pid"
proof -
  have "map (\<lambda>pid. map_option p_id (by_id lobby_server pid)) [''p1'', ''p2''] = [Some ''p1'', Some ''p2'']"
    by code_simp
  then show ?thesis by (auto simp: guessed_room_def)
qed

lemma lobby_member_names:
  "map (\<lambda>pid. JStr (p_name (the (by_id lobby_server pid)))) [''p1'', ''p2'']
     = [JStr ''Player042'', JStr ''Player007'']"
  by code_simp

text \<open>
  The room of two with the word \<open>cat\<close> selected: the entries are those of players 1 and
  2, player 1 owns the room, and the serializations are those of the room with no word
  selected.
\<close>

theorem serializeRoom_shape_witness:
  "map (\<lambda>e. js_get e ''id'')
       (arr_items (js_get (serializeRoom guessed_room (by_id lobby_server)) ''players''))
     = [JStr ''p1'', JStr ''p2'']
   \<and> map (\<lambda>e. js_get e ''name'')
       (arr_items (js_get (serializeRoom guessed_room (by_id lobby_server)) ''players''))
     = [JStr ''Player042'', JStr ''Player007'']
   \<and> map (\<lambda>e. js_get e ''isOwner'')
       (arr_items (js_get (serializeRoom guessed_room (by_id lobby_server)) ''players''))
     = [JBool True, JBool False]
   \<and> serializeRoom (with_selectedWord guessed_room None) (by_id lobby_server)
       = serializeRoom guessed_room (by_id lobby_server)
   \<and> serializeGameState (with_selectedWord guessed_room None) = serializeGameState guessed_room
   \<and> getSelectedWord guessed_room = Some ''cat''
   \<and> getSelectedWord (with_selectedWord guessed_room None) = None"
proof -
  have pl: "players guessed_room = [''p1'', ''p2'']" and ow: "ownerId guessed_room = ''p1''"
    by (simp_all add: guessed_room_def)
  note th = serializeRoom_shape[of guessed_room "by_id lobby_server" None]
  note tl = th[THEN conjunct2, THEN conjunct2, THEN conjunct2, THEN conjunct2, THEN conjunct2]
  from tl[THEN conjunct1] obtain es
    where es: "js_get (serializeRoom guessed_room (by_id lobby_server)) ''players'' = JArr es"
      and imp: "(\<forall>pid \<in> set (players guessed_room).
                   \<exists>p. by_id lobby_server pid = Some p \<and> p_id p = pid)
                \<longrightarrow> map (\<lambda>e. js_get e ''id'') es = map JStr (players guessed_room)
                  \<and> map (\<lambda>e. js_get e ''name'') es
                      = map (\<lambda>pid. JStr (p_name (the (by_id lobby_server pid))))
                          (players guessed_room)
                  \<and> map (\<lambda>e. js_get e ''isOwner'') es
                      = map (\<lambda>pid. JBool (pid = ownerId guessed_room)) (players guessed_room)"
    by (elim exE conjE)
  note abc = mp[OF imp lobby_members_registered]
  have a: "map (\<lambda>e. js_get e ''id'') es = [JStr ''p1'', JStr ''p2'']"
    using abc[THEN conjunct1] by (simp add: pl)
  have b: "map (\<lambda>e. js_get e ''name'') es = [JStr ''Player042'', JStr ''Player007'']"
    using abc[THEN conjunct2, THEN conjunct1] lobby_member_names by (simp only: pl)
  have c: "map (\<lambda>e. js_get e ''isOwner'') es = [JBool True, JBool False]"
    using abc[THEN conjunct2, THEN conjunct2] by (simp add: pl ow)
  have items: "arr_items (js_get (serializeRoom guessed_room (by_id lobby_server)) ''players'') = es"
    by (simp add: es)
  have d: "getSelectedWord guessed_room = Some ''cat''"
    and e: "getSelectedWord (with_selectedWord guessed_room None) = None"
    by code_simp+
  show ?thesis
    unfolding items
    by (intro conjI a b c tl[THEN conjunct2, THEN conjunct1]
        tl[THEN conjunct2, THEN conjunct2, THEN conjunct1] d e)
qed

text \<open>
  C2 (as stated) fails on the shape: the serialized room has no property \<open>code\<close>; the
  room code is the value of the property \<open>id\<close>.
\<close>

theorem serializeRoom_keys_counterexample:
  "obj_keys (serializeRoom guessed_room (by_id lobby_server))
     = [''id'', ''ownerId'', ''players'', ''settings'', ''status'']
   \<and> js_get (serializeRoom guessed_room (by_id lobby_server)) ''code'' = JUndefined
   \<and> js_get (serializeRoom guessed_room (by_id lobby_server)) ''id'' = JStr ''AAAAAA''
   \<and> ''code'' \<notin> set (all_keys (serializeRoom guessed_room (by_id lobby_server)))"
  by code_simp

text \<open>
  The player entries carry \<open>id\<close>, \<open>name\<close> and \<open>isOwner\<close> and no \<open>score\<close>, although the
  replay handler serializes the room 'so clients see updated status/scores in lobby': the
  score of a player is a property that the score engine adds to the player object, and
  the room module does not read it.
\<close>

lemma serializeRoom_entries:
  "map obj_keys (arr_items (js_get (serializeRoom guessed_room (by_id lobby_server)) ''players''))
     = [[''id'', ''name'', ''isOwner''], [''id'', ''name'', ''isOwner'']]"
  by code_simp

section \<open>The score reset of the game start and replay handlers\<close>

text \<open>The same two players after a game of theirs has ended.\<close>

definition finished_server :: server where
  "finished_server =
     lobby_server\<lparr>room_map := run (room_map lobby_server)
                    [StartGame ''AAAAAA'' ''p1'', EndGame ''AAAAAA'']\<rparr>"

text \<open>
  The exception a handler raised (if any), the state it left, and the scores of the given
  players in a state (\<open>Some None\<close> for a player with no score property).
\<close>

fun raised :: "handler_outcome \<Rightarrow> error option" where
  "raised (Raised e srv) = Some e"
| "raised (Returned e srv) = None"

fun state_after :: "handler_outcome \<Rightarrow> server" where
  "state_after (Raised e srv) = srv"
| "state_after (Returned e srv) = srv"

definition member_scores :: "server \<Rightarrow> player_id list \<Rightarrow> int option option list" where
  "member_scores srv pids = map (\<lambda>pid. map_option p_score (by_id srv pid)) pids"

text \<open>
  C1 (the code at the failing input). The owner of a waiting room with two members sends
  \<open>start_game\<close>: \<open>startGame\<close> succeeds and puts the room in game, then the call of
  \<open>playerManager.resetPlayerScores\<close>, a name that \<open>players.js\<close> does not export, raises a
  \<open>TypeError\<close>; no score has been set to 0 (the players still have no score property).
  The \<open>play_again\<close> handler raises in the same way after \<open>resetGame\<close>.
\<close>

theorem resetPlayerScores_raises:
  "raised (start_game_handler lobby_server ''s1'')
     = Some (TypeError ''playerManager.resetPlayerScores is not a function'')
   \<and> map_option status (room_map (state_after (start_game_handler lobby_server ''s1'')) ''AAAAAA'')
     = Some InGame
   \<and> member_scores (state_after (start_game_handler lobby_server ''s1'')) [''p1'', ''p2'']
     = [Some None, Some None]
   \<and> raised (play_again_handler finished_server ''s1'')
     = Some (TypeError ''playerManager.resetPlayerScores is not a function'')
   \<and> map_option status (room_map (state_after (play_again_handler finished_server ''s1'')) ''AAAAAA'')
     = Some Waiting
   \<and> member_scores (state_after (play_again_handler finished_server ''s1'')) [''p1'', ''p2'']
     = [Some None, Some None]"
  by code_simp

section \<open>Word options\<close>

text \<open>A room whose game has just started: the phase is word selection.\<close>

definition started_room :: room where
  "started_room =
     \<lparr>room_id = ''AAAAAA'', ownerId = ''p1'', players = [''p1'', ''p2''],
      settings = DEFAULT_SETTINGS, status = InGame,
      game = Some \<lparr>phase = WordSelect, currentRound = 1, totalRounds = 3, drawerIndex = 0,
                   drawerId = Some ''p1'', guessedPlayers = [],
                   roundStartTime = None, selectedWord = None, maskedWord = None\<rparr>\<rparr>"

text \<open>
  C8 (the code at the failing input). The builtin list names \<open>telescope\<close> at positions
  89 and 107 (and \<open>microscope\<close> at 90 and 108). For a room in the word selection phase
  with no custom words, the order in which the shuffle puts these two entries first
  gives the drawer the options \<open>telescope\<close>, \<open>telescope\<close>, \<open>cat\<close>: three options that
  are not pairwise distinct, from a pool of 151 entries.
\<close>

theorem generateOptions_repeats_word:
  "run Map.empty [CreateRoom ''p1'' JNull (\<lambda>k. 0), JoinRoom ''p2'' (JStr ''AAAAAA''),
                  StartGame ''AAAAAA'' ''p1''] ''AAAAAA'' = Some started_room
   \<and> generateOptionsForDrawer started_room [89, 106] = Inr [''telescope'', ''telescope'', ''cat'']
   \<and> WORD_LIST ! 89 = ''telescope'' \<and> WORD_LIST ! 107 = ''telescope''
   \<and> length (getWordPool (customWords (settings started_room))) = 151"
  by code_simp

end
